theory Spec2Isabelle
  imports Complex_Main
begin

section \<open>Server-side pricing (lib/pricing)\<close>

text \<open>
  The pricing tables are plain JavaScript objects used as dictionaries from a key to an
  entry \<open>{ name, price }\<close>; they are modelled as maps holding their own entries.  Prices
  are the \<open>INTEGER\<close> columns of the pricing tables.
\<close>

record pricing_entry =
  e_name :: string
  e_price :: int

record pricing_row =
  row_key :: string
  row_name :: string
  row_price :: int
  is_active :: bool

record pricing_db =
  pricing_config :: "pricing_row list"
  size_pricing :: "pricing_row list"
  addon_pricing :: "pricing_row list"

record pricing =
  services :: "string \<rightharpoonup> pricing_entry"
  sizes :: "string \<rightharpoonup> pricing_entry"
  addons :: "string \<rightharpoonup> pricing_entry"

text \<open>The module-level cache: \<open>pricingCache\<close> (initially \<open>null\<close>) and \<open>cacheExpiry\<close>.\<close>

record pricing_cache =
  pricingCache :: "pricing option"
  cacheExpiry :: int

text \<open>
  \<open>rows.forEach(s => table[s.key] = { name, price })\<close> over the active rows: a later row
  with the same key overwrites an earlier one.  Row keys are taken to differ from
  \<open>__proto__\<close>: assigning to that key would set the table's prototype instead of adding
  an entry.
\<close>

fun build_table :: "pricing_row list \<Rightarrow> (string \<rightharpoonup> pricing_entry) \<Rightarrow> (string \<rightharpoonup> pricing_entry)" where
  "build_table [] t = t"
| "build_table (r # rs) t =
     build_table rs (t(row_key r \<mapsto> \<lparr>e_name = row_name r, e_price = row_price r\<rparr>))"

definition active_rows :: "pricing_row list \<Rightarrow> pricing_row list" where
  "active_rows rs = filter is_active rs"

definition default_services :: "string \<rightharpoonup> pricing_entry" where
  "default_services =
     [''charcoal'' \<mapsto> \<lparr>e_name = ''Charcoal Portrait'', e_price = 1500\<rparr>,
      ''anime'' \<mapsto> \<lparr>e_name = ''Anime Art'', e_price = 1000\<rparr>,
      ''couple'' \<mapsto> \<lparr>e_name = ''Couple Portrait'', e_price = 3000\<rparr>,
      ''custom'' \<mapsto> \<lparr>e_name = ''Custom'', e_price = 2000\<rparr>]"

definition default_sizes :: "string \<rightharpoonup> pricing_entry" where
  "default_sizes =
     [''a4'' \<mapsto> \<lparr>e_name = ''A4 (standard)'', e_price = 0\<rparr>,
      ''a3'' \<mapsto> \<lparr>e_name = ''A3'', e_price = 1500\<rparr>]"

definition default_addons :: "string \<rightharpoonup> pricing_entry" where
  "default_addons =
     [''none'' \<mapsto> \<lparr>e_name = ''None'', e_price = 0\<rparr>,
      ''framing'' \<mapsto> \<lparr>e_name = ''Framing'', e_price = 600\<rparr>,
      ''express'' \<mapsto> \<lparr>e_name = ''Express Delivery'', e_price = 500\<rparr>,
      ''both'' \<mapsto> \<lparr>e_name = ''Framing + Express'', e_price = 1100\<rparr>]"

text \<open>
  \<open>Object.keys(table).length === 0\<close> holds exactly when no active row was read, since every
  row adds its key.
\<close>

definition with_fallback ::
  "pricing_row list \<Rightarrow> (string \<rightharpoonup> pricing_entry) \<Rightarrow> (string \<rightharpoonup> pricing_entry)" where
  "with_fallback rs dflt =
     (if active_rows rs = [] then dflt else build_table (active_rows rs) Map.empty)"

definition fetchPricing :: "pricing_db \<Rightarrow> pricing" where
  "fetchPricing db =
     \<lparr>services = with_fallback (pricing_config db) default_services,
      sizes = with_fallback (size_pricing db) default_sizes,
      addons = with_fallback (addon_pricing db) default_addons\<rparr>"

definition getPricing :: "int \<Rightarrow> pricing_db \<Rightarrow> pricing_cache \<Rightarrow> pricing \<times> pricing_cache" where
  "getPricing now db c =
     (case pricingCache c of
        Some p \<Rightarrow>
          if cacheExpiry c > now then (p, c)
          else (fetchPricing db,
                \<lparr>pricingCache = Some (fetchPricing db), cacheExpiry = now + 5 * 60 * 1000\<rparr>)
      | None \<Rightarrow>
          (fetchPricing db,
           \<lparr>pricingCache = Some (fetchPricing db), cacheExpiry = now + 5 * 60 * 1000\<rparr>))"

text \<open>
  Reading \<open>table[key]\<close> on a plain object finds the table's own entry; failing that, a
  member inherited from \<open>Object.prototype\<close> (a function or object: truthy, and with no
  \<open>price\<close>); failing that, \<open>undefined\<close>.  (A row whose key is \<open>__proto__\<close> would not
  become an own entry; such rows are not considered.)
\<close>

definition object_prototype_names :: "string list" where
  "object_prototype_names =
     [''constructor'', ''hasOwnProperty'', ''isPrototypeOf'', ''propertyIsEnumerable'',
      ''toLocaleString'', ''toString'', ''valueOf'', ''__defineGetter__'', ''__defineSetter__'',
      ''__lookupGetter__'', ''__lookupSetter__'', ''__proto__'']"

datatype property = Own pricing_entry | Inherited | Undefined

definition js_get :: "(string \<rightharpoonup> pricing_entry) \<Rightarrow> string \<Rightarrow> property" where
  "js_get table k =
     (case table k of
        Some e \<Rightarrow> Own e
      | None \<Rightarrow> if k \<in> set object_prototype_names then Inherited else Undefined)"

text \<open>
  What a call of \<open>calculateOrderPrice\<close> can throw: the two explicit
  \<open>new Error(message)\<close>, and the \<open>TypeError\<close> of reading \<open>.price\<close> of \<open>undefined\<close>.
\<close>

datatype js_error = Error string | TypeError string

record price_breakdown =
  service_key :: string
  service_name :: string
  service_price :: int
  size_key :: string
  size_name :: string
  size_price :: int
  addons_key :: string
  addons_name :: string
  addons_price :: int
  basePrice :: int
  sizePrice :: int
  addonsPrice :: int
  total :: int
  advance :: int
  remaining :: int

text \<open>
  What the call returns: the breakdown, or, when one of the three prices read is
  \<open>undefined\<close>, an object whose \<open>total\<close>, \<open>advance\<close> and \<open>remaining\<close> are \<open>NaN\<close>.
\<close>

datatype priced = Amounts price_breakdown | NaN_amounts

text \<open>
  The body of \<open>calculateOrderPrice\<close> after \<open>await getPricing()\<close>.  The third argument is
  \<open>None\<close> when the caller omits it; the default parameter value is then \<open>'none'\<close>.
  \<open>pricing.addons[addons] || pricing.addons.none\<close> falls back to what is stored under
  \<open>none\<close>, which is \<open>undefined\<close> again when the table has no such entry; the two
  \<open>throw\<close>s come first, and \<open>addonData.price\<close> then raises a \<open>TypeError\<close>
  on \<open>undefined\<close>.  \<open>Math.ceil(total / 2)\<close> is the ceiling of the exact quotient.
\<close>

definition priceOrder ::
  "pricing \<Rightarrow> string \<Rightarrow> string \<Rightarrow> string option \<Rightarrow> js_error + priced" where
  "priceOrder p service sz addons_arg =
     (let addons_k = (case addons_arg of None \<Rightarrow> ''none'' | Some a \<Rightarrow> a);
          serviceData = js_get (services p) service;
          sizeData = js_get (sizes p) sz;
          addonData = (case js_get (addons p) addons_k of
                         Undefined \<Rightarrow> js_get (addons p) ''none''
                       | found \<Rightarrow> found)
      in if serviceData = Undefined then Inl (Error (''Invalid service: '' @ service))
         else if sizeData = Undefined then Inl (Error (''Invalid size: '' @ sz))
         else if addonData = Undefined
         then Inl (TypeError ''Cannot read properties of undefined (reading 'price')'')
         else
           (case serviceData of
              Own sd \<Rightarrow>
                (case sizeData of
                   Own zd \<Rightarrow>
                     (case addonData of
                        Own ad \<Rightarrow>
                          (let base = e_price sd;
                               sizep = e_price zd;
                               addonsp = e_price ad;
                               tot = base + sizep + addonsp;
                               adv = \<lceil>real_of_int tot / 2\<rceil>;
                               rem = tot - adv
                           in Inr (Amounts
                                \<lparr>service_key = service, service_name = e_name sd,
                                 service_price = base,
                                 size_key = sz, size_name = e_name zd, size_price = sizep,
                                 addons_key = addons_k, addons_name = e_name ad,
                                 addons_price = addonsp,
                                 basePrice = base, sizePrice = sizep, addonsPrice = addonsp,
                                 total = tot, advance = adv, remaining = rem\<rparr>))
                      | _ \<Rightarrow> Inr NaN_amounts)
                 | _ \<Rightarrow> Inr NaN_amounts)
            | _ \<Rightarrow> Inr NaN_amounts))"

definition calculateOrderPrice ::
  "int \<Rightarrow> pricing_db \<Rightarrow> pricing_cache \<Rightarrow> string \<Rightarrow> string \<Rightarrow> string option
     \<Rightarrow> (js_error + priced) \<times> pricing_cache" where
  "calculateOrderPrice now db c service sz addons_arg =
     (case getPricing now db c of (p, c') \<Rightarrow> (priceOrder p service sz addons_arg, c'))"

section \<open>Strings and JavaScript values\<close>

text \<open>
  Strings are ASCII character lists.  \<open>toLowerCase\<close> and \<open>trim\<close> are modelled on ASCII
  letters and ASCII white space.
\<close>

definition lower_char :: "char \<Rightarrow> char" where
  "lower_char c =
     (if of_char CHR ''A'' \<le> (of_char c :: nat) \<and> (of_char c :: nat) \<le> of_char CHR ''Z''
      then char_of ((of_char c :: nat) + 32) else c)"

definition toLowerCase :: "string \<Rightarrow> string" where
  "toLowerCase s = map lower_char s"

definition is_space :: "char \<Rightarrow> bool" where
  "is_space c = ((of_char c :: nat) \<in> {9, 10, 11, 12, 13, 32})"

definition trim :: "string \<Rightarrow> string" where
  "trim s = rev (dropWhile is_space (rev (dropWhile is_space s)))"

text \<open>\<open>s.split(',')\<close>: the pieces between commas; the empty string gives one empty piece.\<close>

fun split_comma :: "string \<Rightarrow> string list" where
  "split_comma [] = [[]]"
| "split_comma (c # cs) =
     (if c = CHR '','' then [] # split_comma cs
      else (case split_comma cs of p # ps \<Rightarrow> (c # p) # ps | [] \<Rightarrow> [[c]]))"

text \<open>A value that may be \<open>undefined\<close>, \<open>null\<close> or the empty string is falsy.\<close>

definition truthy :: "string option \<Rightarrow> bool" where
  "truthy v = (case v of None \<Rightarrow> False | Some s \<Rightarrow> s \<noteq> [])"

text \<open>\<open>a || b\<close> on such values.\<close>

definition js_or :: "string option \<Rightarrow> string option \<Rightarrow> string option" where
  "js_or a b = (if truthy a then a else b)"

section \<open>Data model (supabase/schema.sql)\<close>

text \<open>
  Rows keep the columns the handlers read or write.  Identifiers are strings, timestamps
  are milliseconds since the epoch, a nullable column is an \<open>option\<close>.  A table is the
  list of its rows; \<open>rate_limits\<close> has \<open>UNIQUE(identifier, action)\<close> and is a map from
  that pair to its row.
\<close>

record user =
  u_id :: string
  u_email :: string
  u_name :: string
  u_role :: string
  u_banned :: bool
  admin_permissions :: "(string \<rightharpoonup> bool) option"

record refresh_token =
  rt_id :: string
  rt_user_id :: string
  revoked_at :: "int option"

record order =
  o_id :: string
  order_number :: string
  o_user_id :: "string option"
  guest_email :: "string option"
  o_service_name :: string
  o_size_name :: string
  o_addons_name :: string
  o_total :: int
  o_advance :: int
  o_remaining :: int
  o_status :: string
  razorpay_order_id :: "string option"
  razorpay_payment_id :: "string option"
  razorpay_signature :: "string option"
  payment_verified :: bool
  o_created_at :: int
  paid_at :: "int option"
  o_updated_at :: int

record ticket =
  t_id :: string
  ticket_number :: string
  t_order_id :: "string option"
  t_user_id :: "string option"
  subject :: string
  category :: string
  priority :: string
  t_status :: string
  t_updated_at :: int
  resolved_at :: "int option"

record attachment =
  a_name :: "string option"
  a_type :: "string option"
  a_url :: string

record ticket_message =
  m_id :: string
  m_ticket_id :: string
  author_id :: "string option"
  author_name :: string
  is_admin :: bool
  is_system :: bool
  m_message :: string
  attachments :: "attachment list"

text \<open>JSON values of response bodies and of the \<open>details\<close> column of the audit log.\<close>

datatype jval =
    JStr string
  | JNum rat
  | JBool bool
  | JNull
  | JStrs "string list"
  | JObj "(string \<times> jval) list"
  | JOrders "order list"
  | JTicket "ticket option"
  | JMessage "ticket_message option"

record activity_log =
  l_user_id :: "string option"
  l_action :: string
  l_resource_type :: string
  l_resource_id :: "string option"
  l_details :: "(string \<times> jval) list"
  l_ip_address :: "string option"
  l_user_agent :: "string option"

record rate_limit =
  attempts :: int
  window_start :: int
  blocked_until :: "int option"

record db =
  users :: "user list"
  refresh_tokens :: "refresh_token list"
  orders :: "order list"
  tickets :: "ticket list"
  ticket_messages :: "ticket_message list"
  activity_logs :: "activity_log list"
  rate_limits :: "string \<times> string \<rightharpoonup> rate_limit"

text \<open>
  \<open>.select(...).eq(...).single()\<close>: the one matching row; \<open>data\<close> is \<open>null\<close> when no
  row or more than one row matches.
\<close>

definition single :: "('a \<Rightarrow> bool) \<Rightarrow> 'a list \<Rightarrow> 'a option" where
  "single P rows = (case filter P rows of [r] \<Rightarrow> Some r | _ \<Rightarrow> None)"

text \<open>\<open>.update(u).eq(...)\<close>: every matching row is updated.\<close>

definition update_where :: "('a \<Rightarrow> bool) \<Rightarrow> ('a \<Rightarrow> 'a) \<Rightarrow> 'a list \<Rightarrow> 'a list" where
  "update_where P u rows = map (\<lambda>r. if P r then u r else r) rows"

section \<open>Requests and responses\<close>

record request =
  req_method :: string
  cookie_access_token :: "string option"
  authorization :: "string option"
  x_forwarded_for :: "string option"
  x_real_ip :: "string option"
  remoteAddress :: "string option"
  user_agent :: "string option"
  x_razorpay_signature :: "string option"

text \<open>
  \<open>res.status(n).json(body)\<close>, with the headers a handler sets itself (the fixed CORS and
  security headers of \<open>handleCors\<close> are left out).
\<close>

record response =
  status :: nat
  body :: "(string \<times> jval) list"
  headers :: "(string \<times> jval) list"

definition json :: "nat \<Rightarrow> (string \<times> jval) list \<Rightarrow> response" where
  "json n b = \<lparr>status = n, body = b, headers = []\<rparr>"

text \<open>\<open>handleCors\<close> answers a preflight itself and returns \<open>true\<close>.\<close>

definition handleCors :: "request \<Rightarrow> response option" where
  "handleCors req = (if req_method req = ''OPTIONS'' then Some (json 200 []) else None)"

definition getClientIP :: "request \<Rightarrow> string" where
  "getClientIP req =
     (case js_or (js_or (js_or
              (map_option (\<lambda>h. case split_comma h of p # _ \<Rightarrow> trim p | [] \<Rightarrow> [])
                 (x_forwarded_for req))
              (x_real_ip req)) (remoteAddress req)) (Some ''unknown'') of
        Some ip \<Rightarrow> ip | None \<Rightarrow> ''unknown'')"

definition getUserAgent :: "request \<Rightarrow> string" where
  "getUserAgent req = take 500 (case user_agent req of Some a \<Rightarrow> a | None \<Rightarrow> [])"

text \<open>
  \<open>logActivity\<close> appends one row to \<open>activity_logs\<close>; the request is optional.  (A failure
  of the insert is caught and only logged to the console; the store is modelled as
  accepting the row.)
\<close>

definition logActivity ::
  "string option \<Rightarrow> string \<Rightarrow> string \<Rightarrow> string option \<Rightarrow> (string \<times> jval) list
     \<Rightarrow> request option \<Rightarrow> db \<Rightarrow> db" where
  "logActivity userId action resourceType resourceId details req d =
     d\<lparr>activity_logs := activity_logs d @
        [\<lparr>l_user_id = userId, l_action = action, l_resource_type = resourceType,
          l_resource_id = resourceId, l_details = details,
          l_ip_address = map_option getClientIP req,
          l_user_agent = map_option getUserAgent req\<rparr>]\<rparr>"

section \<open>Configuration and library functions\<close>

text \<open>
  The environment variables the handlers read, and the library functions they call:
  \<open>crypto.createHmac('sha256', key).update(data).digest('hex')\<close>, the JWT check of
  \<open>verifyAccessToken\<close>, which yields the subject of a valid access token, the rupee
  amount \<open>n.toLocaleString('en-IN')\<close> with its currency sign, and the Joi schema check of
  \<open>validateMessage\<close> (\<open>Inl\<close> the list of errors, \<open>Inr\<close> the sanitised value).  The library
  functions are parameters: every result below holds for any such functions.
\<close>

record message_body =
  mb_message :: "string option"
  mb_attachments :: "attachment list"

record env =
  SUPER_ADMIN_EMAILS :: string
  RAZORPAY_KEY_SECRET :: "string option"
  RAZORPAY_WEBHOOK_SECRET :: "string option"
  hmac_sha256_hex :: "string \<Rightarrow> string \<Rightarrow> string"
  verifyAccessToken :: "string \<Rightarrow> string option"
  inr :: "int \<Rightarrow> string"
  validateMessage :: "message_body \<Rightarrow> string list + message_body"

section \<open>Rate limiter (lib/middleware: checkRateLimit)\<close>

text \<open>
  One clock reading \<open>now\<close> stands for the \<open>Date.now()\<close> and \<open>new Date()\<close> calls of one
  request.  The result is \<open>None\<close> when the function returns \<open>true\<close> (request allowed) and
  the 429 response it has sent when it returns \<open>false\<close>.  The store is modelled as
  answering every query; the \<open>catch\<close> branch, which allows the request, is not reached.
\<close>

definition too_many :: "int \<Rightarrow> bool \<Rightarrow> response" where
  "too_many retryAfter with_header =
     \<lparr>status = 429,
      body = [(''error'', JStr ''Too many requests''), (''retryAfter'', JNum (of_int retryAfter))],
      headers = (if with_header then [(''Retry-After'', JNum (of_int retryAfter))] else [])\<rparr>"

definition checkRateLimit ::
  "int \<Rightarrow> request \<Rightarrow> string \<Rightarrow> int \<Rightarrow> int \<Rightarrow> db \<Rightarrow> response option \<times> db" where
  "checkRateLimit now req action maxAttempts windowMs d =
     (let identifier = getClientIP req;
          windowStart = now - windowMs
      in case rate_limits d (identifier, action) of
           Some limit \<Rightarrow>
             if (case blocked_until limit of Some b \<Rightarrow> b > now | None \<Rightarrow> False)
             then (Some (too_many \<lceil>real_of_int (the (blocked_until limit) - now) / 1000\<rceil> True), d)
             else if window_start limit > windowStart then
               (if attempts limit \<ge> maxAttempts
                then (Some (too_many 300 False),
                      d\<lparr>rate_limits := (rate_limits d)((identifier, action) \<mapsto>
                           limit\<lparr>blocked_until := Some (now + 5 * 60 * 1000)\<rparr>)\<rparr>)
                else (None,
                      d\<lparr>rate_limits := (rate_limits d)((identifier, action) \<mapsto>
                           limit\<lparr>attempts := attempts limit + 1\<rparr>)\<rparr>))
             else (None,
                   d\<lparr>rate_limits := (rate_limits d)((identifier, action) \<mapsto>
                        limit\<lparr>attempts := 1, window_start := now, blocked_until := None\<rparr>)\<rparr>)
         | None \<Rightarrow>
             (None,
              d\<lparr>rate_limits := (rate_limits d)((identifier, action) \<mapsto>
                   \<lparr>attempts = 1, window_start = now, blocked_until = None\<rparr>)\<rparr>))"

text \<open>
  A client issuing requests at the given times, all for the same action, limit and window:
  the responses in order, and the store afterwards.
\<close>

fun attempts_run ::
  "request \<Rightarrow> string \<Rightarrow> int \<Rightarrow> int \<Rightarrow> int list \<Rightarrow> db \<Rightarrow> response option list \<times> db" where
  "attempts_run req action maxAttempts windowMs [] d = ([], d)"
| "attempts_run req action maxAttempts windowMs (t # ts) d =
     (case checkRateLimit t req action maxAttempts windowMs d of
        (r, d') \<Rightarrow>
          (case attempts_run req action maxAttempts windowMs ts d' of
             (rs, d'') \<Rightarrow> (r # rs, d'')))"

text \<open>Whether a counter row carries a block that is still in force.\<close>

definition blocked_now :: "int \<Rightarrow> rate_limit \<Rightarrow> bool" where
  "blocked_now now limit = (case blocked_until limit of Some b \<Rightarrow> now < b | None \<Rightarrow> False)"

text \<open>
  Whether a request at time \<open>t\<close> opens a new window: there is no counter row yet, or the
  row's window has elapsed and no block is in force.
\<close>

definition opens_window :: "int \<Rightarrow> int \<Rightarrow> rate_limit option \<Rightarrow> bool" where
  "opens_window t windowMs row =
     (case row of
        None \<Rightarrow> True
      | Some limit \<Rightarrow> \<not> blocked_now t limit \<and> window_start limit \<le> t - windowMs)"

section \<open>Authentication and permissions (lib/middleware)\<close>

text \<open>
  \<open>requireAuth\<close>: the token of the cookie, else of a \<open>Bearer\<close> header; the user row is
  read afresh.  \<open>Inl\<close> is the response sent when it returns \<open>null\<close>.
\<close>

definition bearer_token :: "string option \<Rightarrow> string option" where
  "bearer_token h =
     (case h of
        None \<Rightarrow> None
      | Some a \<Rightarrow> if take 7 a = ''Bearer '' then Some (drop 7 a) else None)"

definition request_token :: "request \<Rightarrow> string option" where
  "request_token req =
     (if truthy (cookie_access_token req) then cookie_access_token req
      else bearer_token (authorization req))"

definition requireAuth :: "env \<Rightarrow> request \<Rightarrow> db \<Rightarrow> response + user" where
  "requireAuth e req d =
     (if \<not> truthy (request_token req)
      then Inl (json 401 [(''error'', JStr ''Authentication required'')])
      else case verifyAccessToken e (the (request_token req)) of
             None \<Rightarrow> Inl (json 401 [(''error'', JStr ''Invalid or expired token'')])
           | Some sub \<Rightarrow>
               (case single (\<lambda>u. u_id u = sub) (users d) of
                  None \<Rightarrow> Inl (json 401 [(''error'', JStr ''User not found'')])
                | Some u \<Rightarrow>
                    if u_banned u then Inl (json 403 [(''error'', JStr ''Account suspended'')])
                    else Inr u))"

definition getSuperAdmins :: "env \<Rightarrow> string list" where
  "getSuperAdmins e =
     filter (\<lambda>x. x \<noteq> []) (map (\<lambda>x. toLowerCase (trim x)) (split_comma (SUPER_ADMIN_EMAILS e)))"

definition isSuperAdmin :: "env \<Rightarrow> user \<Rightarrow> bool" where
  "isSuperAdmin e u =
     (if u_role u \<noteq> ''admin'' then False
      else toLowerCase (u_email u) \<in> set (getSuperAdmins e))"

text \<open>
  The permissions that the endpoints check, with the keys under which the
  \<open>admin_permissions\<close> object of a user stores them.
\<close>

datatype permission = manage_orders | manage_tickets | manage_gallery | manage_users | view_logs

fun permission_name :: "permission \<Rightarrow> string" where
  "permission_name manage_orders = ''manage_orders''"
| "permission_name manage_tickets = ''manage_tickets''"
| "permission_name manage_gallery = ''manage_gallery''"
| "permission_name manage_users = ''manage_users''"
| "permission_name view_logs = ''view_logs''"

definition hasPermission :: "env \<Rightarrow> user \<Rightarrow> permission \<Rightarrow> bool" where
  "hasPermission e u permission =
     (if u_role u \<noteq> ''admin'' then False
      else if isSuperAdmin e u then True
      else (case admin_permissions u of
              None \<Rightarrow> False
            | Some perms \<Rightarrow>
                (case perms (permission_name permission) of None \<Rightarrow> False | Some b \<Rightarrow> b)))"

definition requireAdmin :: "user \<Rightarrow> response option" where
  "requireAdmin u =
     (if u_role u \<noteq> ''admin'' then Some (json 403 [(''error'', JStr ''Admin access required'')])
      else None)"

text \<open>
  \<open>checkPermissionOrTerminate\<close> is repeated in each endpoint file with the same body; the
  copies differ in the texts of the log entry and of the response only.
\<close>

record violation_texts =
  v_reason :: string
  v_error :: string
  v_message :: string

definition orders_texts :: violation_texts where
  "orders_texts = \<lparr>v_reason = ''Unauthorized order access'', v_error = ''Access violation'',
                    v_message = ''Admin access revoked.''\<rparr>"

definition ticket_texts :: violation_texts where
  "ticket_texts = \<lparr>v_reason = ''Unauthorized ticket action'', v_error = ''Access violation'',
                    v_message = ''Admin access revoked.''\<rparr>"

definition checkPermissionOrTerminate ::
  "violation_texts \<Rightarrow> env \<Rightarrow> int \<Rightarrow> user \<Rightarrow> permission \<Rightarrow> request \<Rightarrow> db
     \<Rightarrow> response option \<times> db" where
  "checkPermissionOrTerminate txt e now u permission req d =
     (if isSuperAdmin e u then (None, d)
      else if hasPermission e u permission then (None, d)
      else
        (let d1 = d\<lparr>users := update_where (\<lambda>r. u_id r = u_id u)
                          (\<lambda>r. r\<lparr>u_role := ''user'', admin_permissions := None\<rparr>) (users d)\<rparr>;
             d2 = d1\<lparr>refresh_tokens := update_where (\<lambda>t. rt_user_id t = u_id u)
                          (\<lambda>t. t\<lparr>revoked_at := Some now\<rparr>) (refresh_tokens d1)\<rparr>;
             d3 = logActivity (Some (u_id u)) ''ADMIN_ACCESS_TERMINATED'' ''user'' (Some (u_id u))
                    [(''reason'', JStr (v_reason txt)),
                     (''attempted_permission'', JStr (permission_name permission))]
                    (Some req) d2
         in (Some (json 403 [(''error'', JStr (v_error txt)), (''terminated'', JBool True),
                             (''message'', JStr (v_message txt))]), d3)))"

section \<open>Payment verification (api/payment/verify)\<close>

text \<open>
  \<open>Buffer.from(s, 'hex')\<close> decodes pairs of hexadecimal digits, of either case, and stops
  at the first pair that is not hexadecimal; an odd last character is dropped.
\<close>

definition hex_digit :: "char \<Rightarrow> nat option" where
  "hex_digit c =
     (let n = (of_char c :: nat)
      in if 48 \<le> n \<and> n \<le> 57 then Some (n - 48)
         else if 97 \<le> n \<and> n \<le> 102 then Some (n - 87)
         else if 65 \<le> n \<and> n \<le> 70 then Some (n - 55)
         else None)"

fun buffer_from_hex :: "string \<Rightarrow> nat list" where
  "buffer_from_hex (a # b # rest) =
     (case hex_digit a of
        None \<Rightarrow> []
      | Some x \<Rightarrow>
          (case hex_digit b of
             None \<Rightarrow> []
           | Some y \<Rightarrow> (16 * x + y) # buffer_from_hex rest))"
| "buffer_from_hex _ = []"

text \<open>
  \<open>crypto.timingSafeEqual\<close> throws on buffers of different lengths; the handler catches
  that and takes the signature as invalid.
\<close>

definition timingSafeEqual :: "nat list \<Rightarrow> nat list \<Rightarrow> js_error + bool" where
  "timingSafeEqual a b =
     (if length a \<noteq> length b
      then Inl (Error ''Input buffers must have the same byte length'')
      else Inr (a = b))"

definition isValidSignature :: "string \<Rightarrow> string \<Rightarrow> bool" where
  "isValidSignature expectedSignature signature =
     (case timingSafeEqual (buffer_from_hex expectedSignature) (buffer_from_hex signature) of
        Inl _ \<Rightarrow> False
      | Inr v \<Rightarrow> v)"

text \<open>\<open>n.toString(36).toUpperCase()\<close> for a non-negative integer.\<close>

definition digit36 :: "nat \<Rightarrow> char" where
  "digit36 n = (if n < 10 then char_of (48 + n) else char_of (55 + n))"

fun base36 :: "nat \<Rightarrow> string" where
  "base36 n = (if n < 36 then [digit36 n] else base36 (n div 36) @ [digit36 (n mod 36)])"

declare base36.simps [simp del]

record verify_body =
  b_razorpay_order_id :: "string option"
  b_razorpay_payment_id :: "string option"
  b_razorpay_signature :: "string option"
  b_order_id :: "string option"

text \<open>Whether a verification request carries all four required parameters.\<close>

definition fields_present :: "verify_body \<Rightarrow> bool" where
  "fields_present b \<longleftrightarrow> truthy (b_razorpay_order_id b) \<and> truthy (b_razorpay_payment_id b)
        \<and> truthy (b_razorpay_signature b) \<and> truthy (b_order_id b)"

definition nl :: string where
  "nl = [char_of (10 :: nat)]"

definition confirmation_message :: "env \<Rightarrow> order \<Rightarrow> string" where
  "confirmation_message e ord =
     ''Thank you for your order!'' @ nl @ nl @
     ''Order ID: '' @ order_number ord @ nl @
     ''Service: '' @ o_service_name ord @ nl @
     ''Size: '' @ o_size_name ord @ nl @
     ''Add-ons: '' @ o_addons_name ord @ nl @
     ''Total: '' @ inr e (o_total ord) @ nl @
     ''Advance Paid: '' @ inr e (o_advance ord) @ nl @
     ''Remaining: '' @ inr e (o_remaining ord) @ nl @ nl @
     ''We'll start working on your commission soon!''"

text \<open>
  \<open>.insert(row).select().single()\<close> into \<open>tickets\<close>: the row is stored unless its primary
  key or its \<open>UNIQUE\<close> ticket number is taken, in which case \<open>data\<close> is \<open>null\<close>.
\<close>

definition insert_ticket :: "ticket \<Rightarrow> db \<Rightarrow> ticket option \<times> db" where
  "insert_ticket t d =
     (if (\<exists>x \<in> set (tickets d). t_id x = t_id t \<or> ticket_number x = ticket_number t)
      then (None, d)
      else (Some t, d\<lparr>tickets := tickets d @ [t]\<rparr>))"

definition mark_paid_verify :: "string \<Rightarrow> string \<Rightarrow> int \<Rightarrow> order \<Rightarrow> order" where
  "mark_paid_verify payment_id signature now r =
     r\<lparr>razorpay_payment_id := Some payment_id, razorpay_signature := Some signature,
       payment_verified := True, o_status := ''advance_paid'', paid_at := Some now,
       o_updated_at := now\<rparr>"

text \<open>
  The handler.  \<open>new_ticket_id\<close> and \<open>new_message_id\<close> are the keys the store generates for
  the rows inserted.  The text of the store's error in the details of the mismatch log entry
  is left out.  An unset \<open>RAZORPAY_KEY_SECRET\<close> makes \<open>createHmac\<close> throw, which the
  outer \<open>catch\<close> turns into the 500 response.
\<close>

definition paymentVerify ::
  "env \<Rightarrow> int \<Rightarrow> string \<Rightarrow> string \<Rightarrow> request \<Rightarrow> verify_body \<Rightarrow> db \<Rightarrow> response \<times> db" where
  "paymentVerify e now new_ticket_id new_message_id req b d =
     (case handleCors req of
        Some r \<Rightarrow> (r, d)
      | None \<Rightarrow>
     if req_method req \<noteq> ''POST'' then (json 405 [(''error'', JStr ''Method not allowed'')], d)
     else
     (case checkRateLimit now req ''payment_verify'' 10 60000 d of
        (Some r, d1) \<Rightarrow> (r, d1)
      | (None, d1) \<Rightarrow>
     if \<not> truthy (b_razorpay_order_id b) \<or> \<not> truthy (b_razorpay_payment_id b)
        \<or> \<not> truthy (b_razorpay_signature b) \<or> \<not> truthy (b_order_id b)
     then (json 400 [(''error'', JStr ''Missing required payment parameters'')],
           logActivity None ''PAYMENT_VERIFY_MISSING_PARAMS'' ''payment'' None
             [(''has_order_id'', JBool (truthy (b_razorpay_order_id b))),
              (''has_payment_id'', JBool (truthy (b_razorpay_payment_id b))),
              (''has_signature'', JBool (truthy (b_razorpay_signature b))),
              (''has_internal_order'', JBool (truthy (b_order_id b)))] (Some req) d1)
     else
     (let rzp_order_id = the (b_razorpay_order_id b);
          rzp_payment_id = the (b_razorpay_payment_id b);
          rzp_signature = the (b_razorpay_signature b);
          order_id = the (b_order_id b)
      in
     case RAZORPAY_KEY_SECRET e of
        None \<Rightarrow>
          (json 500 [(''success'', JBool False), (''error'', JStr ''Payment verification failed'')],
           d1)
      | Some secret \<Rightarrow>
     if \<not> isValidSignature (hmac_sha256_hex e secret (rzp_order_id @ ''|'' @ rzp_payment_id))
            rzp_signature
     then (json 400 [(''success'', JBool False),
                     (''error'', JStr ''Payment verification failed - invalid signature'')],
           logActivity None ''PAYMENT_SIGNATURE_INVALID'' ''order'' (Some order_id)
             [(''razorpay_order_id'', JStr rzp_order_id),
              (''razorpay_payment_id'', JStr rzp_payment_id)] (Some req) d1)
     else
     (case single (\<lambda>r. o_id r = order_id \<and> razorpay_order_id r = Some rzp_order_id) (orders d1) of
        None \<Rightarrow>
          (json 404 [(''success'', JBool False),
                     (''error'', JStr ''Order not found or Razorpay order ID mismatch'')],
           logActivity None ''PAYMENT_ORDER_MISMATCH'' ''order'' (Some order_id)
             [(''razorpay_order_id'', JStr rzp_order_id)] (Some req) d1)
      | Some ord \<Rightarrow>
     if payment_verified ord
     then (json 200 [(''success'', JBool True), (''message'', JStr ''Payment already verified''),
                     (''order_number'', JStr (order_number ord))], d1)
     else
     (let d2 = d1\<lparr>orders := update_where (\<lambda>r. o_id r = order_id)
                       (mark_paid_verify rzp_payment_id rzp_signature now) (orders d1)\<rparr>;
          ticketNumber = ''TKT'' @ base36 (nat now)
      in case insert_ticket
                \<lparr>t_id = new_ticket_id, ticket_number = ticketNumber, t_order_id = Some (o_id ord),
                 t_user_id = o_user_id ord,
                 subject = ''Order '' @ order_number ord @ '' - '' @ o_service_name ord,
                 category = ''order'', priority = ''normal'', t_status = ''open'',
                 t_updated_at = now, resolved_at = None\<rparr> d2 of
           (tk, d3) \<Rightarrow>
     (let d4 = (case tk of
                  None \<Rightarrow> d3
                | Some t \<Rightarrow>
                    d3\<lparr>ticket_messages := ticket_messages d3 @
                       [\<lparr>m_id = new_message_id, m_ticket_id = t_id t, author_id = None,
                         author_name = ''System'', is_admin = False, is_system = True,
                         m_message = confirmation_message e ord, attachments = []\<rparr>]\<rparr>);
          d5 = logActivity (o_user_id ord) ''PAYMENT_VERIFIED'' ''order'' (Some (o_id ord))
                 [(''razorpay_order_id'', JStr rzp_order_id),
                  (''razorpay_payment_id'', JStr rzp_payment_id),
                  (''amount'', JNum (of_int (o_advance ord))),
                  (''ticket_number'', JStr ticketNumber)] (Some req) d4
      in (json 200 [(''success'', JBool True),
                    (''message'', JStr ''Payment verified successfully''),
                    (''order_number'', JStr (order_number ord)),
                    (''ticket_number'', JStr ticketNumber)], d5)))))))"

section \<open>Gateway webhook (api/payment/webhook)\<close>

record payment_entity =
  p_id :: string
  p_order_id :: string
  p_amount :: int
  error_code :: "string option"
  error_description :: "string option"

record order_entity =
  oe_id :: string

text \<open>\<open>payload.payment?.entity\<close> and \<open>payload.order?.entity\<close>.\<close>

record webhook_payload =
  payment :: "payment_entity option"
  order_paid :: "order_entity option"

text \<open>\<open>req.body\<close> with its serialisation \<open>JSON.stringify(req.body)\<close>.\<close>

record webhook_body =
  event :: "string option"
  payload :: "webhook_payload option"
  stringify :: string

text \<open>
  The three event handlers.  Reading a property of an \<open>undefined\<close> payload throws a
  \<open>TypeError\<close> (\<open>Inl\<close>), before any store access.
\<close>

definition mark_paid_webhook :: "string \<Rightarrow> int \<Rightarrow> order \<Rightarrow> order" where
  "mark_paid_webhook payment_id now r =
     r\<lparr>razorpay_payment_id := Some payment_id, payment_verified := True,
       o_status := ''advance_paid'', paid_at := Some now, o_updated_at := now\<rparr>"

definition handlePaymentCaptured :: "int \<Rightarrow> webhook_payload option \<Rightarrow> db \<Rightarrow> js_error + db" where
  "handlePaymentCaptured now pl d =
     (case pl of
        None \<Rightarrow> Inl (TypeError ''Cannot read properties of undefined (reading 'payment')'')
      | Some p \<Rightarrow>
          (case payment p of
             None \<Rightarrow> Inr d
           | Some pay \<Rightarrow>
               (case single (\<lambda>r. razorpay_order_id r = Some (p_order_id pay)) (orders d) of
                  None \<Rightarrow> Inr d
                | Some ord \<Rightarrow>
                    if payment_verified ord then Inr d
                    else
                      Inr (logActivity (o_user_id ord) ''PAYMENT_CAPTURED_WEBHOOK'' ''order''
                             (Some (o_id ord))
                             [(''razorpay_payment_id'', JStr (p_id pay)),
                              (''amount'', JNum (of_int (p_amount pay) / 100))] None
                             (d\<lparr>orders := update_where (\<lambda>r. o_id r = o_id ord)
                                   (mark_paid_webhook (p_id pay) now) (orders d)\<rparr>)))))"

text \<open>
  A property of the details whose value is \<open>undefined\<close> is left out when the row is
  serialised for the store.
\<close>

definition opt_entry :: "string \<Rightarrow> string option \<Rightarrow> (string \<times> jval) list" where
  "opt_entry k v = (case v of None \<Rightarrow> [] | Some s \<Rightarrow> [(k, JStr s)])"

definition handlePaymentFailed :: "webhook_payload option \<Rightarrow> db \<Rightarrow> js_error + db" where
  "handlePaymentFailed pl d =
     (case pl of
        None \<Rightarrow> Inl (TypeError ''Cannot read properties of undefined (reading 'payment')'')
      | Some p \<Rightarrow>
          (case payment p of
             None \<Rightarrow> Inr d
           | Some pay \<Rightarrow>
               (case single (\<lambda>r. razorpay_order_id r = Some (p_order_id pay)) (orders d) of
                  None \<Rightarrow> Inr d
                | Some ord \<Rightarrow>
                    Inr (logActivity (o_user_id ord) ''PAYMENT_FAILED_WEBHOOK'' ''order''
                           (Some (o_id ord))
                           (opt_entry ''error_code'' (error_code pay)
                              @ opt_entry ''error_description'' (error_description pay))
                           None d))))"

definition mark_order_paid :: "int \<Rightarrow> order \<Rightarrow> order" where
  "mark_order_paid now r =
     r\<lparr>payment_verified := True, o_status := ''advance_paid'', paid_at := Some now,
       o_updated_at := now\<rparr>"

definition handleOrderPaid :: "int \<Rightarrow> webhook_payload option \<Rightarrow> db \<Rightarrow> js_error + db" where
  "handleOrderPaid now pl d =
     (case pl of
        None \<Rightarrow> Inl (TypeError ''Cannot read properties of undefined (reading 'order')'')
      | Some p \<Rightarrow>
          (case order_paid p of
             None \<Rightarrow> Inr d
           | Some oe \<Rightarrow>
               (case single (\<lambda>r. razorpay_order_id r = Some (oe_id oe)) (orders d) of
                  None \<Rightarrow> Inr d
                | Some ord \<Rightarrow>
                    if payment_verified ord then Inr d
                    else
                      Inr (logActivity (o_user_id ord) ''ORDER_PAID_WEBHOOK'' ''order''
                             (Some (o_id ord))
                             [(''razorpay_order_id'', JStr (oe_id oe))] None
                             (d\<lparr>orders := update_where (\<lambda>r. o_id r = o_id ord)
                                   (mark_order_paid now) (orders d)\<rparr>)))))"

text \<open>
  The \<open>switch\<close> on the event, inside the handler's \<open>try\<close>.  An absent body makes
  \<open>req.body.event\<close> throw.
\<close>

definition dispatch_event :: "int \<Rightarrow> webhook_body option \<Rightarrow> db \<Rightarrow> js_error + db" where
  "dispatch_event now b d =
     (case b of
        None \<Rightarrow> Inl (TypeError ''Cannot read properties of undefined (reading 'event')'')
      | Some wb \<Rightarrow>
          if event wb = Some ''payment.captured'' then handlePaymentCaptured now (payload wb) d
          else if event wb = Some ''payment.failed'' then handlePaymentFailed (payload wb) d
          else if event wb = Some ''order.paid'' then handleOrderPaid now (payload wb) d
          else Inr d)"

definition acknowledge :: "int \<Rightarrow> webhook_body option \<Rightarrow> db \<Rightarrow> response \<times> db" where
  "acknowledge now b d =
     (case dispatch_event now b d of
        Inr d' \<Rightarrow> (json 200 [(''received'', JBool True)], d')
      | Inl err \<Rightarrow>
          (json 200 [(''received'', JBool True), (''error'', JStr ''Processing error'')], d))"

text \<open>
  The webhook handler.  With a webhook secret configured, the signature header is compared,
  as a string, with the HMAC of the serialised body; \<open>JSON.stringify\<close> of an absent body is
  \<open>undefined\<close>, on which \<open>update\<close> throws, and the \<open>catch\<close> answers 200.
\<close>

definition paymentWebhook ::
  "env \<Rightarrow> int \<Rightarrow> request \<Rightarrow> webhook_body option \<Rightarrow> db \<Rightarrow> response \<times> db" where
  "paymentWebhook e now req b d =
     (if req_method req \<noteq> ''POST'' then (json 405 [(''error'', JStr ''Method not allowed'')], d)
      else if truthy (RAZORPAY_WEBHOOK_SECRET e) then
        (if \<not> truthy (x_razorpay_signature req)
         then (json 400 [(''error'', JStr ''Missing signature'')], d)
         else
           (case b of
              None \<Rightarrow>
                (json 200 [(''received'', JBool True), (''error'', JStr ''Processing error'')], d)
            | Some wb \<Rightarrow>
                if the (x_razorpay_signature req)
                     \<noteq> hmac_sha256_hex e (the (RAZORPAY_WEBHOOK_SECRET e)) (stringify wb)
                then (json 400 [(''error'', JStr ''Invalid signature'')],
                      logActivity None ''WEBHOOK_SIGNATURE_INVALID'' ''webhook'' None []
                        (Some req) d)
                else acknowledge now b d))
      else acknowledge now b d)"




section \<open>Tickets (api/tickets/[id] and api/tickets/[id]/messages)\<close>

definition insert_message :: "ticket_message \<Rightarrow> db \<Rightarrow> ticket_message option \<times> db" where
  "insert_message m d =
     (if (\<exists>x \<in> set (ticket_messages d). m_id x = m_id m) then (None, d)
      else (Some m, d\<lparr>ticket_messages := ticket_messages d @ [m]\<rparr>))"

definition reply_status :: "bool \<Rightarrow> string \<Rightarrow> string" where
  "reply_status isAdmin st =
     (if isAdmin \<and> st = ''open'' then ''pending''
      else if \<not> isAdmin \<and> st = ''pending'' then ''open''
      else st)"

definition handleAddMessage ::
  "env \<Rightarrow> int \<Rightarrow> string \<Rightarrow> request \<Rightarrow> string \<Rightarrow> message_body \<Rightarrow> db \<Rightarrow> response \<times> db" where
  "handleAddMessage e now new_message_id req ticketId b d =
     (case requireAuth e req d of
        Inl r \<Rightarrow> (r, d)
      | Inr u \<Rightarrow>
     (case (if u_role u \<noteq> ''admin''
            then checkRateLimit now req (''add_message_'' @ u_id u) 200 3600000 d
            else (None, d)) of
        (Some r, d1) \<Rightarrow> (r, d1)
      | (None, d1) \<Rightarrow>
     (case single (\<lambda>t. t_id t = ticketId) (tickets d1) of
        None \<Rightarrow> (json 404 [(''error'', JStr ''Ticket not found'')], d1)
      | Some tk \<Rightarrow>
     if u_role u \<noteq> ''admin'' \<and> t_user_id tk \<noteq> Some (u_id u)
     then (json 403 [(''error'', JStr ''Access denied'')], d1)
     else if t_status tk = ''closed''
     then (json 400 [(''error'', JStr ''Cannot add message to closed ticket'')], d1)
     else
     (case validateMessage e b of
        Inl errs \<Rightarrow>
          (json 400 [(''error'', JStr ''Validation failed''), (''details'', JStrs errs)], d1)
      | Inr v \<Rightarrow>
     (let isAdmin = (u_role u = ''admin'')
      in case insert_message
                \<lparr>m_id = new_message_id, m_ticket_id = ticketId, author_id = Some (u_id u),
                 author_name = u_name u, is_admin = isAdmin, is_system = False,
                 m_message = (case mb_message v of Some m \<Rightarrow> m | None \<Rightarrow> []),
                 attachments = mb_attachments v\<rparr> d1 of
           (None, d2) \<Rightarrow> (json 500 [(''error'', JStr ''Failed to add message'')], d2)
         | (Some newMessage, d2) \<Rightarrow>
             (let d3 = d2\<lparr>tickets := update_where (\<lambda>t. t_id t = ticketId)
                            (\<lambda>t. t\<lparr>t_updated_at := now,
                                   t_status := reply_status isAdmin (t_status tk)\<rparr>)
                            (tickets d2)\<rparr>;
                  d4 = logActivity (Some (u_id u)) ''TICKET_MESSAGE_ADDED'' ''ticket''
                         (Some ticketId)
                         [(''ticket_number'', JStr (ticket_number tk)),
                          (''is_admin'', JBool isAdmin)] (Some req) d3
              in (json 201 [(''success'', JBool True), (''message'', JMessage (Some newMessage))],
                  d4)))))))"

record ticket_update_body =
  tb_status :: "string option"
  tb_priority :: "string option"

definition validStatuses :: "string list" where
  "validStatuses = [''open'', ''pending'', ''in_progress'', ''resolved'', ''closed'']"

definition validPriorities :: "string list" where
  "validPriorities = [''low'', ''normal'', ''high'', ''urgent'']"

text \<open>
  The final write of \<open>handleUpdateTicket\<close>: \<open>update\<close> carries \<open>updated_at\<close>, the new
  status with \<open>resolved_at\<close> when one was requested, and the new priority when one was.
\<close>

definition apply_ticket_update :: "int \<Rightarrow> string option \<Rightarrow> string option \<Rightarrow> ticket \<Rightarrow> ticket" where
  "apply_ticket_update now st pr t =
     (let t1 = t\<lparr>t_updated_at := now\<rparr>;
          t2 = (if truthy st
                then (if the st = ''resolved'' \<or> the st = ''closed''
                      then t1\<lparr>t_status := the st, resolved_at := Some now\<rparr>
                      else t1\<lparr>t_status := the st\<rparr>)
                else t1)
      in if truthy pr then t2\<lparr>priority := the pr\<rparr> else t2)"

definition finish_ticket_update ::
  "int \<Rightarrow> request \<Rightarrow> string \<Rightarrow> ticket_update_body \<Rightarrow> user \<Rightarrow> ticket \<Rightarrow> db \<Rightarrow> response \<times> db" where
  "finish_ticket_update now req ticketId b u currentTicket d =
     (let d1 = d\<lparr>tickets := update_where (\<lambda>t. t_id t = ticketId)
                    (apply_ticket_update now (tb_status b) (tb_priority b)) (tickets d)\<rparr>;
          updatedTicket = single (\<lambda>t. t_id t = ticketId) (tickets d1);
          d2 = (if truthy (tb_status b)
                then logActivity (Some (u_id u)) ''TICKET_STATUS_UPDATED'' ''ticket'' (Some ticketId)
                       [(''old_status'', JStr (t_status currentTicket)),
                        (''new_status'', JStr (the (tb_status b))),
                        (''ticket_number'', JStr (ticket_number currentTicket))] (Some req) d1
                else d1)
      in (json 200 [(''success'', JBool True), (''ticket'', JTicket updatedTicket)], d2))"

text \<open>The priority part of \<open>handleUpdateTicket\<close>, then the write.\<close>

definition update_priority_part ::
  "env \<Rightarrow> int \<Rightarrow> request \<Rightarrow> string \<Rightarrow> ticket_update_body \<Rightarrow> user \<Rightarrow> ticket \<Rightarrow> db
     \<Rightarrow> response \<times> db" where
  "update_priority_part e now req ticketId b u currentTicket d =
     (if truthy (tb_priority b) then
        (case requireAdmin u of
           Some r \<Rightarrow> (r, d)
         | None \<Rightarrow>
             (case checkPermissionOrTerminate ticket_texts e now u manage_tickets req d of
                (Some r, d1) \<Rightarrow> (r, d1)
              | (None, d1) \<Rightarrow>
                  if the (tb_priority b) \<notin> set validPriorities
                  then (json 400 [(''error'', JStr ''Invalid priority''),
                                  (''validPriorities'', JStrs validPriorities)], d1)
                  else finish_ticket_update now req ticketId b u currentTicket d1))
      else finish_ticket_update now req ticketId b u currentTicket d)"

text \<open>The status part of \<open>handleUpdateTicket\<close>, then the priority part.\<close>

definition update_status_part ::
  "env \<Rightarrow> int \<Rightarrow> request \<Rightarrow> string \<Rightarrow> ticket_update_body \<Rightarrow> user \<Rightarrow> ticket \<Rightarrow> db
     \<Rightarrow> response \<times> db" where
  "update_status_part e now req ticketId b u currentTicket d =
     (if truthy (tb_status b) then
        (if the (tb_status b) \<notin> set validStatuses
         then (json 400 [(''error'', JStr ''Invalid status''),
                         (''validStatuses'', JStrs validStatuses)], d)
         else if u_role u \<noteq> ''admin'' \<and> the (tb_status b) \<noteq> ''closed''
         then (json 403 [(''error'', JStr ''Only admin can change to this status'')], d)
         else update_priority_part e now req ticketId b u currentTicket d)
      else update_priority_part e now req ticketId b u currentTicket d)"

definition handleUpdateTicket ::
  "env \<Rightarrow> int \<Rightarrow> request \<Rightarrow> string \<Rightarrow> ticket_update_body \<Rightarrow> db \<Rightarrow> response \<times> db" where
  "handleUpdateTicket e now req ticketId b d =
     (case requireAuth e req d of
        Inl r \<Rightarrow> (r, d)
      | Inr u \<Rightarrow>
          (case single (\<lambda>t. t_id t = ticketId) (tickets d) of
             None \<Rightarrow> (json 404 [(''error'', JStr ''Ticket not found'')], d)
           | Some currentTicket \<Rightarrow>
               if t_user_id currentTicket \<noteq> Some (u_id u) then
                 (if u_role u \<noteq> ''admin'' then (json 403 [(''error'', JStr ''Access denied'')], d)
                  else
                    (case checkPermissionOrTerminate ticket_texts e now u manage_tickets req d of
                       (Some r, d1) \<Rightarrow> (r, d1)
                     | (None, d1) \<Rightarrow> update_status_part e now req ticketId b u currentTicket d1))
               else update_status_part e now req ticketId b u currentTicket d))"

section \<open>Order listing (api/orders: handleGetOrders)\<close>

text \<open>
  \<open>parseInt\<close> of a query parameter is \<open>None\<close> when it is missing or not a number.
  \<open>n || dflt\<close> takes the default for \<open>NaN\<close> and for 0.
\<close>

record orders_query =
  q_page :: "int option"
  q_limit :: "int option"

definition num_or :: "int option \<Rightarrow> int \<Rightarrow> int" where
  "num_or v dflt = (case v of None \<Rightarrow> dflt | Some n \<Rightarrow> if n = 0 then dflt else n)"

text \<open>
  \<open>.order('created_at', { ascending: false }).range(offset, offset + limit - 1)\<close>: the store
  refuses a negative offset and an empty range (the handler then answers 500).
\<close>

definition range_rows :: "int \<Rightarrow> int \<Rightarrow> order list \<Rightarrow> order list option" where
  "range_rows offs lmt rows =
     (if offs < 0 \<or> lmt < 1 then None
      else Some (take (nat lmt) (drop (nat offs) (sort_key (\<lambda>r. - o_created_at r) rows))))"

definition list_orders :: "orders_query \<Rightarrow> (order \<Rightarrow> bool) \<Rightarrow> db \<Rightarrow> response" where
  "list_orders q visible d =
     (let page = num_or (q_page q) 1;
          lmt = min (num_or (q_limit q) 20) 100;
          offs = (page - 1) * lmt
      in case range_rows offs lmt (filter visible (orders d)) of
           None \<Rightarrow> json 500 [(''error'', JStr ''Failed to fetch orders'')]
         | Some rows \<Rightarrow>
             json 200 [(''success'', JBool True), (''orders'', JOrders rows),
                       (''pagination'',
                        JObj [(''page'', JNum (of_int page)), (''limit'', JNum (of_int lmt)),
                              (''total'', JNull)])])"

definition handleGetOrders ::
  "env \<Rightarrow> int \<Rightarrow> request \<Rightarrow> orders_query \<Rightarrow> db \<Rightarrow> response \<times> db" where
  "handleGetOrders e now req q d =
     (case requireAuth e req d of
        Inl r \<Rightarrow> (r, d)
      | Inr u \<Rightarrow>
          if u_role u \<noteq> ''admin''
          then (list_orders q (\<lambda>r. o_user_id r = Some (u_id u)) d, d)
          else
            (case checkPermissionOrTerminate orders_texts e now u manage_orders req d of
               (Some r, d1) \<Rightarrow> (r, d1)
             | (None, d1) \<Rightarrow> (list_orders q (\<lambda>r. True) d1, d1)))"

section \<open>Example configurations and states\<close>

text \<open>Concrete data on which the results below are exercised.\<close>

definition example_pricing_db :: pricing_db where
  "example_pricing_db =
     \<lparr>pricing_config =
        [\<lparr>row_key = ''sketch'', row_name = ''Pencil Sketch'', row_price = 1501, is_active = True\<rparr>],
      size_pricing = [],
      addon_pricing =
        [\<lparr>row_key = ''framing'', row_name = ''Framing'', row_price = 600, is_active = True\<rparr>,
         \<lparr>row_key = ''none'', row_name = ''None'', row_price = 0, is_active = False\<rparr>]\<rparr>"

definition empty_cache :: pricing_cache where
  "empty_cache = \<lparr>pricingCache = None, cacheExpiry = 0\<rparr>"

text \<open>Stand-ins for the library functions, used in the examples only.\<close>

definition toy_hmac :: "string \<Rightarrow> string \<Rightarrow> string" where
  "toy_hmac key msg = (if even (length key + length msg) then ''c0ffee'' else ''decade'')"

definition toy_verify :: "string \<Rightarrow> string option" where
  "toy_verify tok = (if take 4 tok = ''tok-'' then Some (drop 4 tok) else None)"

definition toy_inr :: "int \<Rightarrow> string" where
  "toy_inr n = ''Rs''"

definition toy_validate :: "message_body \<Rightarrow> string list + message_body" where
  "toy_validate b = (if truthy (mb_message b) then Inr b else Inl [''message is required''])"

definition example_env :: env where
  "example_env =
     \<lparr>SUPER_ADMIN_EMAILS = ''root@example.com, Owner@Example.com'',
      RAZORPAY_KEY_SECRET = Some ''key-secret'',
      RAZORPAY_WEBHOOK_SECRET = Some ''hook-secret'',
      hmac_sha256_hex = toy_hmac,
      verifyAccessToken = toy_verify,
      inr = toy_inr,
      validateMessage = toy_validate\<rparr>"

definition alice :: user where
  "alice = \<lparr>u_id = ''u1'', u_email = ''alice@example.com'', u_name = ''Alice'',
            u_role = ''user'', u_banned = False, admin_permissions = None\<rparr>"

definition bob :: user where
  "bob = \<lparr>u_id = ''u2'', u_email = ''bob@example.com'', u_name = ''Bob'',
          u_role = ''admin'', u_banned = False,
          admin_permissions = Some [''manage_tickets'' \<mapsto> True, ''manage_users'' \<mapsto> False]\<rparr>"

definition order1 :: order where
  "order1 =
     \<lparr>o_id = ''o1'', order_number = ''ORD1'', o_user_id = Some ''u1'', guest_email = None,
      o_service_name = ''Anime Art'', o_size_name = ''A4 (standard)'', o_addons_name = ''None'',
      o_total = 1000, o_advance = 500, o_remaining = 500, o_status = ''pending'',
      razorpay_order_id = Some ''order_A'', razorpay_payment_id = None,
      razorpay_signature = None, payment_verified = False, o_created_at = 100,
      paid_at = None, o_updated_at = 100\<rparr>"

definition order2 :: order where
  "order2 =
     \<lparr>o_id = ''o2'', order_number = ''ORD2'', o_user_id = None,
      guest_email = Some ''guest@example.com'',
      o_service_name = ''Custom'', o_size_name = ''A3'', o_addons_name = ''Framing'',
      o_total = 4100, o_advance = 2050, o_remaining = 2050, o_status = ''pending'',
      razorpay_order_id = Some ''order_B'', razorpay_payment_id = None,
      razorpay_signature = None, payment_verified = False, o_created_at = 200,
      paid_at = None, o_updated_at = 200\<rparr>"

definition order3 :: order where
  "order3 =
     \<lparr>o_id = ''o3'', order_number = ''ORD3'', o_user_id = Some ''u2'', guest_email = None,
      o_service_name = ''Charcoal Portrait'', o_size_name = ''A3'', o_addons_name = ''None'',
      o_total = 3000, o_advance = 1500, o_remaining = 1500, o_status = ''pending'',
      razorpay_order_id = Some ''order_C'', razorpay_payment_id = None,
      razorpay_signature = None, payment_verified = False, o_created_at = 300,
      paid_at = None, o_updated_at = 300\<rparr>"

definition ticket1 :: ticket where
  "ticket1 =
     \<lparr>t_id = ''t1'', ticket_number = ''TKT1'', t_order_id = None, t_user_id = Some ''u1'',
      subject = ''Question'', category = ''general'', priority = ''normal'',
      t_status = ''open'', t_updated_at = 50, resolved_at = None\<rparr>"

definition ticket2 :: ticket where
  "ticket2 =
     \<lparr>t_id = ''t2'', ticket_number = ''TKT2'', t_order_id = None, t_user_id = Some ''u1'',
      subject = ''Old question'', category = ''general'', priority = ''normal'',
      t_status = ''closed'', t_updated_at = 60, resolved_at = Some 60\<rparr>"

definition example_db :: db where
  "example_db =
     \<lparr>users = [alice, bob],
      refresh_tokens =
        [\<lparr>rt_id = ''r1'', rt_user_id = ''u2'', revoked_at = None\<rparr>,
         \<lparr>rt_id = ''r2'', rt_user_id = ''u1'', revoked_at = None\<rparr>],
      orders = [order1, order2, order3],
      tickets = [ticket1, ticket2],
      ticket_messages = [],
      activity_logs = [],
      rate_limits = Map.empty\<rparr>"

definition request_from :: "string option \<Rightarrow> request" where
  "request_from tok =
     \<lparr>req_method = ''POST'', cookie_access_token = tok, authorization = None,
      x_forwarded_for = None, x_real_ip = None, remoteAddress = Some ''10.0.0.1'',
      user_agent = Some ''agent'', x_razorpay_signature = None\<rparr>"

definition limited_db :: db where
  "limited_db =
     example_db\<lparr>rate_limits :=
       [(''10.0.0.1'', ''login'') \<mapsto>
          \<lparr>attempts = 5, window_start = 0, blocked_until = Some 500000\<rparr>]\<rparr>"

definition verify_body_A :: "string \<Rightarrow> string \<Rightarrow> verify_body" where
  "verify_body_A sg oid =
     \<lparr>b_razorpay_order_id = Some ''order_A'', b_razorpay_payment_id = Some ''pay_1'',
      b_razorpay_signature = Some sg, b_order_id = Some oid\<rparr>"

text \<open>The store after a first, successful verification of \<open>order1\<close> at time 1000.\<close>

definition paid_db :: db where
  "paid_db = snd (paymentVerify example_env 1000 ''t9'' ''m9'' (request_from None)
                   (verify_body_A ''decade'' ''o1'') example_db)"

definition captured_body :: webhook_body where
  "captured_body =
     \<lparr>event = Some ''payment.captured'',
      payload = Some \<lparr>payment = Some \<lparr>p_id = ''pay_1'', p_order_id = ''order_A'', p_amount = 50000,
                                       error_code = None, error_description = None\<rparr>,
                      order_paid = None\<rparr>,
      stringify = ''{event:payment.captured,payment:{id:pay_1,order_id:order_A}}''\<rparr>"

definition webhook_request :: "string option \<Rightarrow> request" where
  "webhook_request sg =
     \<lparr>req_method = ''POST'', cookie_access_token = None, authorization = None,
      x_forwarded_for = None, x_real_ip = None, remoteAddress = Some ''52.66.0.1'',
      user_agent = Some ''Razorpay-Webhook'', x_razorpay_signature = sg\<rparr>"

text \<open>The store after the gateway's \<open>payment.captured\<close> event for \<open>order1\<close>, at time 900.\<close>

definition captured_db :: db where
  "captured_db = snd (paymentWebhook example_env 900 (webhook_request (Some ''decade''))
                       (Some captured_body) example_db)"

section \<open>Properties of the pricing engine\<close>

lemmas pricing_eval = getPricing_def fetchPricing_def with_fallback_def active_rows_def
  default_services_def default_sizes_def default_addons_def example_pricing_db_def empty_cache_def

lemma ceil_half: "\<lceil>real_of_int t / 2\<rceil> = (t + 1) div 2"
  by linarith

lemma js_get_own: "table k = Some e \<Longrightarrow> js_get table k = Own e"
  by (simp add: js_get_def)

lemma js_get_undefined:
  "table k = None \<Longrightarrow> k \<notin> set object_prototype_names \<Longrightarrow> js_get table k = Undefined"
  by (simp add: js_get_def)

lemma js_get_inherited:
  "table k = None \<Longrightarrow> k \<in> set object_prototype_names \<Longrightarrow> js_get table k = Inherited"
  by (simp add: js_get_def)

lemma priceOrder_ok:
  assumes "services p service = Some sd" "sizes p sz = Some zd" "addons p a = Some ad"
  shows "\<exists>r. priceOrder p service sz (Some a) = Inr (Amounts r)
           \<and> basePrice r = e_price sd \<and> sizePrice r = e_price zd \<and> addonsPrice r = e_price ad
           \<and> total r = e_price sd + e_price zd + e_price ad
           \<and> advance r = \<lceil>real_of_int (total r) / 2\<rceil>
           \<and> remaining r = total r - advance r
           \<and> advance r + remaining r = total r"
  using assms by (simp add: priceOrder_def Let_def js_get_own)

text \<open>
  Claim C6.  When the service, size and addon keys are all entries of the active pricing
  set (the result of \<open>getPricing\<close>), \<open>calculateOrderPrice\<close> returns a breakdown whose total
  is the sum of the three looked-up prices, whose advance is the ceiling of half the total,
  whose remaining amount is the total minus the advance, and advance plus remaining is
  the total.
\<close>

theorem calculateOrderPrice_breakdown:
  assumes "services (fst (getPricing now db c)) service = Some sd"
      and "sizes (fst (getPricing now db c)) sz = Some zd"
      and "addons (fst (getPricing now db c)) a = Some ad"
  shows "\<exists>r. fst (calculateOrderPrice now db c service sz (Some a)) = Inr (Amounts r)
           \<and> basePrice r = e_price sd \<and> sizePrice r = e_price zd \<and> addonsPrice r = e_price ad
           \<and> total r = e_price sd + e_price zd + e_price ad
           \<and> advance r = \<lceil>real_of_int (total r) / 2\<rceil>
           \<and> remaining r = total r - advance r
           \<and> advance r + remaining r = total r"
proof -
  obtain p c' where g: "getPricing now db c = (p, c')" by (cases "getPricing now db c")
  with assms have "services p service = Some sd" "sizes p sz = Some zd" "addons p a = Some ad"
    by simp_all
  from priceOrder_ok [OF this] g show ?thesis
    by (simp add: calculateOrderPrice_def)
qed

theorem calculateOrderPrice_breakdown_witness:
  "services (fst (getPricing 0 example_pricing_db empty_cache)) ''sketch''
       = Some \<lparr>e_name = ''Pencil Sketch'', e_price = 1501\<rparr>
   \<and> sizes (fst (getPricing 0 example_pricing_db empty_cache)) ''a4''
       = Some \<lparr>e_name = ''A4 (standard)'', e_price = 0\<rparr>
   \<and> addons (fst (getPricing 0 example_pricing_db empty_cache)) ''framing''
       = Some \<lparr>e_name = ''Framing'', e_price = 600\<rparr>
   \<and> (\<exists>r. fst (calculateOrderPrice 0 example_pricing_db empty_cache
                 ''sketch'' ''a4'' (Some ''framing'')) = Inr (Amounts r)
         \<and> total r = 2101 \<and> advance r = 1051 \<and> remaining r = 1050)"
proof -
  have s: "services (fst (getPricing 0 example_pricing_db empty_cache)) ''sketch''
       = Some \<lparr>e_name = ''Pencil Sketch'', e_price = 1501\<rparr>"
    by (simp add: pricing_eval)
  have z: "sizes (fst (getPricing 0 example_pricing_db empty_cache)) ''a4''
       = Some \<lparr>e_name = ''A4 (standard)'', e_price = 0\<rparr>"
    by (simp add: pricing_eval)
  have a: "addons (fst (getPricing 0 example_pricing_db empty_cache)) ''framing''
       = Some \<lparr>e_name = ''Framing'', e_price = 600\<rparr>"
    by (simp add: pricing_eval)
  from calculateOrderPrice_breakdown [OF s z a] obtain r where
    r: "fst (calculateOrderPrice 0 example_pricing_db empty_cache
              ''sketch'' ''a4'' (Some ''framing'')) = Inr (Amounts r)"
       "total r = 1501 + 0 + 600" "advance r = \<lceil>real_of_int (total r) / 2\<rceil>"
       "remaining r = total r - advance r"
    by auto
  then have "total r = 2101" "advance r = 1051" "remaining r = 1050"
    by (simp_all add: ceil_half)
  with r(1) s z a show ?thesis by blast
qed

text \<open>
  A service key, and a size key under a known service, that is neither in the active set
  nor the name of an inherited member makes the call fail with the message naming the key,
  whatever the addon argument.
\<close>

lemma unknown_service_fails:
  "services (fst (getPricing now db c)) service = None \<Longrightarrow>
   service \<notin> set object_prototype_names \<Longrightarrow>
   fst (calculateOrderPrice now db c service sz a) = Inl (Error (''Invalid service: '' @ service))"
  by (cases "getPricing now db c")
     (simp add: calculateOrderPrice_def priceOrder_def Let_def js_get_undefined)

lemma unknown_size_fails:
  "services (fst (getPricing now db c)) service = Some sd \<Longrightarrow>
   sizes (fst (getPricing now db c)) sz = None \<Longrightarrow> sz \<notin> set object_prototype_names \<Longrightarrow>
   fst (calculateOrderPrice now db c service sz a) = Inl (Error (''Invalid size: '' @ sz))"
  by (cases "getPricing now db c")
     (simp add: calculateOrderPrice_def priceOrder_def Let_def js_get_undefined js_get_own)

text \<open>
  An addon key that is omitted or unknown (and not the name of an inherited member) takes
  the name and the price of the \<open>none\<close> entry, provided the active set has one.
\<close>

lemma unknown_addon_resolves_to_none:
  assumes "services (fst (getPricing now db c)) service = Some sd"
      and "sizes (fst (getPricing now db c)) sz = Some zd"
      and "addons (fst (getPricing now db c)) (case a of None \<Rightarrow> ''none'' | Some k \<Rightarrow> k) = None"
      and "(case a of None \<Rightarrow> ''none'' | Some k \<Rightarrow> k) \<notin> set object_prototype_names"
      and "addons (fst (getPricing now db c)) ''none'' = Some ne"
  shows "\<exists>r. fst (calculateOrderPrice now db c service sz a) = Inr (Amounts r)
           \<and> addons_name r = e_name ne \<and> addonsPrice r = e_price ne
           \<and> total r = e_price sd + e_price zd + e_price ne"
  using assms
  by (cases "getPricing now db c")
     (simp add: calculateOrderPrice_def priceOrder_def Let_def js_get_undefined js_get_own)

text \<open>
  Claim C7.  The claim is that, for every input, an unknown service or size key fails with
  a descriptive error while an unknown or omitted addon key resolves to the \<open>none\<close> entry
  instead of failing.  On an active pricing set whose only addon is \<open>framing\<close>, a call that
  omits the addon, or names an unknown one, fails with the \<open>TypeError\<close> of reading \<open>price\<close>
  of \<open>undefined\<close>; and a service or size key that is not in the active set but names a
  member of \<open>Object.prototype\<close> does not fail at all: the call returns \<open>NaN\<close> amounts.
\<close>

theorem calculateOrderPrice_unknown_keys:
  "fst (calculateOrderPrice 0 example_pricing_db empty_cache ''sketch'' ''a4'' None)
     = Inl (TypeError ''Cannot read properties of undefined (reading 'price')'')
   \<and> fst (calculateOrderPrice 0 example_pricing_db empty_cache ''sketch'' ''a4'' (Some ''gift''))
     = Inl (TypeError ''Cannot read properties of undefined (reading 'price')'')
   \<and> fst (calculateOrderPrice 0 example_pricing_db empty_cache ''constructor'' ''a4''
            (Some ''framing''))
     = Inr NaN_amounts
   \<and> fst (calculateOrderPrice 0 example_pricing_db empty_cache ''sketch'' ''toString''
            (Some ''framing''))
     = Inr NaN_amounts"
  by (simp add: calculateOrderPrice_def priceOrder_def pricing_eval js_get_def
        object_prototype_names_def)

section \<open>Properties of the rate limiter\<close>

lemma rl_new:
  "rate_limits d (getClientIP req, action) = None \<Longrightarrow>
   checkRateLimit now req action N W d =
     (None, d\<lparr>rate_limits := (rate_limits d)((getClientIP req, action) \<mapsto>
               \<lparr>attempts = 1, window_start = now, blocked_until = None\<rparr>)\<rparr>)"
  by (simp add: checkRateLimit_def)

lemma rl_blocked:
  "rate_limits d (getClientIP req, action) = Some limit \<Longrightarrow> blocked_until limit = Some b \<Longrightarrow>
   now < b \<Longrightarrow>
   checkRateLimit now req action N W d = (Some (too_many \<lceil>real_of_int (b - now) / 1000\<rceil> True), d)"
  by (simp add: checkRateLimit_def)

lemma rl_exceeded:
  "rate_limits d (getClientIP req, action) = Some limit \<Longrightarrow> \<not> blocked_now now limit \<Longrightarrow>
   now - W < window_start limit \<Longrightarrow> N \<le> attempts limit \<Longrightarrow>
   checkRateLimit now req action N W d =
     (Some (too_many 300 False),
      d\<lparr>rate_limits := (rate_limits d)((getClientIP req, action) \<mapsto>
           limit\<lparr>blocked_until := Some (now + 5 * 60 * 1000)\<rparr>)\<rparr>)"
  by (simp add: checkRateLimit_def blocked_now_def split: option.splits)

lemma rl_counted:
  "rate_limits d (getClientIP req, action) = Some limit \<Longrightarrow> \<not> blocked_now now limit \<Longrightarrow>
   now - W < window_start limit \<Longrightarrow> attempts limit < N \<Longrightarrow>
   checkRateLimit now req action N W d =
     (None,
      d\<lparr>rate_limits := (rate_limits d)((getClientIP req, action) \<mapsto>
           limit\<lparr>attempts := attempts limit + 1\<rparr>)\<rparr>)"
  by (simp add: checkRateLimit_def blocked_now_def split: option.splits)

lemma rl_reset:
  "rate_limits d (getClientIP req, action) = Some limit \<Longrightarrow> \<not> blocked_now now limit \<Longrightarrow>
   window_start limit \<le> now - W \<Longrightarrow>
   checkRateLimit now req action N W d =
     (None,
      d\<lparr>rate_limits := (rate_limits d)((getClientIP req, action) \<mapsto>
           limit\<lparr>attempts := 1, window_start := now, blocked_until := None\<rparr>)\<rparr>)"
  by (simp add: checkRateLimit_def blocked_now_def split: option.splits)

text \<open>The rate limiter touches no table but its own, and rejects with 429 only.\<close>

lemma checkRateLimit_frame:
  assumes "checkRateLimit now req action N W d = (r, d')"
  shows "users d' = users d \<and> refresh_tokens d' = refresh_tokens d \<and> orders d' = orders d
       \<and> tickets d' = tickets d \<and> ticket_messages d' = ticket_messages d
       \<and> activity_logs d' = activity_logs d"
  using assms
  by (auto simp: checkRateLimit_def Let_def split: option.splits if_splits)

lemma checkRateLimit_status:
  "checkRateLimit now req action N W d = (Some r, d') \<Longrightarrow> status r = 429"
  by (auto simp: checkRateLimit_def Let_def too_many_def split: option.splits if_splits)

lemma run_counted:
  assumes "rate_limits d (getClientIP req, action)
             = Some \<lparr>attempts = k, window_start = t0, blocked_until = None\<rparr>"
      and "k + int (length ts) \<le> N"
      and "\<forall>t \<in> set ts. t - t0 < W"
  shows "fst (attempts_run req action N W ts d) = replicate (length ts) None
       \<and> rate_limits (snd (attempts_run req action N W ts d)) (getClientIP req, action)
           = Some \<lparr>attempts = k + int (length ts), window_start = t0, blocked_until = None\<rparr>"
  using assms
proof (induction ts arbitrary: d k)
  case Nil
  then show ?case by simp
next
  case (Cons t ts)
  let ?d1 = "d\<lparr>rate_limits := (rate_limits d)((getClientIP req, action) \<mapsto>
               \<lparr>attempts = k + 1, window_start = t0, blocked_until = None\<rparr>)\<rparr>"
  have step: "checkRateLimit t req action N W d = (None, ?d1)"
    using Cons.prems rl_counted [of d req action _ t W N]
    by (simp add: blocked_now_def)
  have row1: "rate_limits ?d1 (getClientIP req, action)
                = Some \<lparr>attempts = k + 1, window_start = t0, blocked_until = None\<rparr>"
    by simp
  have "(k + 1) + int (length ts) \<le> N" "\<forall>t \<in> set ts. t - t0 < W"
    using Cons.prems by simp_all
  from Cons.IH [OF row1 this]
  have "fst (attempts_run req action N W ts ?d1) = replicate (length ts) None"
       "rate_limits (snd (attempts_run req action N W ts ?d1)) (getClientIP req, action)
           = Some \<lparr>attempts = k + 1 + int (length ts), window_start = t0, blocked_until = None\<rparr>"
    by simp_all
  with step show ?case
    by (cases "attempts_run req action N W ts ?d1") (simp add: add.assoc)
qed

lemma attempts_run_append:
  "attempts_run req action N W (xs @ ys) d =
     (fst (attempts_run req action N W xs d)
        @ fst (attempts_run req action N W ys (snd (attempts_run req action N W xs d))),
      snd (attempts_run req action N W ys (snd (attempts_run req action N W xs d))))"
  by (induction xs arbitrary: d) (simp_all split: prod.splits)

lemma run_limit_reached:
  assumes opens: "opens_window t0 W (rate_limits d (getClientIP req, action))"
      and N: "1 \<le> N" and len: "int (length ts) = N - 1"
      and win: "\<forall>t \<in> set (ts @ [t_last]). t - t0 < W"
  shows "fst (attempts_run req action N W (t0 # ts @ [t_last]) d)
           = replicate (nat N) None @ [Some (too_many 300 False)]
       \<and> rate_limits (snd (attempts_run req action N W (t0 # ts @ [t_last]) d))
            (getClientIP req, action)
           = Some \<lparr>attempts = N, window_start = t0,
                   blocked_until = Some (t_last + 5 * 60 * 1000)\<rparr>"
proof -
  let ?key = "(getClientIP req, action)"
  let ?d1 = "d\<lparr>rate_limits := (rate_limits d)(?key \<mapsto>
               \<lparr>attempts = 1, window_start = t0, blocked_until = None\<rparr>)\<rparr>"
  let ?d2 = "snd (attempts_run req action N W ts ?d1)"
  have first: "checkRateLimit t0 req action N W d = (None, ?d1)"
  proof (cases "rate_limits d ?key")
    case None
    then show ?thesis by (rule rl_new)
  next
    case (Some limit)
    with opens have "\<not> blocked_now t0 limit" "window_start limit \<le> t0 - W"
      by (simp_all add: opens_window_def)
    from rl_reset [OF Some this, where N = N]
    show ?thesis by (cases limit) simp
  qed
  have row1: "rate_limits ?d1 ?key = Some \<lparr>attempts = 1, window_start = t0, blocked_until = None\<rparr>"
    by simp
  have mid: "fst (attempts_run req action N W ts ?d1) = replicate (length ts) None"
            "rate_limits ?d2 ?key
               = Some \<lparr>attempts = 1 + int (length ts), window_start = t0, blocked_until = None\<rparr>"
    using run_counted [OF row1, of ts N W] len win by simp_all
  have row2: "rate_limits ?d2 ?key = Some \<lparr>attempts = N, window_start = t0, blocked_until = None\<rparr>"
    using mid(2) len by simp
  have last: "checkRateLimit t_last req action N W ?d2 =
     (Some (too_many 300 False),
      ?d2\<lparr>rate_limits := (rate_limits ?d2)(?key \<mapsto>
           \<lparr>attempts = N, window_start = t0, blocked_until = None\<rparr>
             \<lparr>blocked_until := Some (t_last + 5 * 60 * 1000)\<rparr>)\<rparr>)"
    using rl_exceeded [OF row2, of t_last W N] win by (simp add: blocked_now_def)
  have n: "length ts = nat N - 1" "Suc (length ts) = nat N"
    using len N by linarith+
  have whole: "attempts_run req action N W (t0 # ts @ [t_last]) d =
      (None # replicate (length ts) None @ [Some (too_many 300 False)],
       ?d2\<lparr>rate_limits := (rate_limits ?d2)(?key \<mapsto>
           \<lparr>attempts = N, window_start = t0, blocked_until = None\<rparr>
             \<lparr>blocked_until := Some (t_last + 5 * 60 * 1000)\<rparr>)\<rparr>)"
    using first mid(1) last by (simp add: attempts_run_append)
  have "None # replicate (length ts) (None :: response option) = replicate (nat N) None"
    using n(2) by (metis replicate_Suc)
  with whole show ?thesis by simp
qed

text \<open>
  Claim C8.  For a limit \<open>N\<close> (at least 1, as at every call site) and a window \<open>W\<close>:
  when a client's request opens a window and its next \<open>N\<close> requests all fall within that
  window, the first \<open>N\<close> of these \<open>N + 1\<close> requests are allowed and the \<open>(N + 1)\<close>-th is
  rejected with 429, and that rejection sets \<open>blocked_until\<close> five minutes ahead; a request
  arriving after the window has elapsed, with no block in force, is allowed and resets the
  counter to 1; and
  while \<open>blocked_until\<close> lies in the future the request is rejected with 429 and a
  \<open>Retry-After\<close> header, whatever the window, and the store is left as it is.
\<close>

theorem checkRateLimit_window:
  "(opens_window t0 W (rate_limits d (getClientIP req, action)) \<and> 1 \<le> N
      \<and> int (length ts) = N - 1 \<and> (\<forall>t \<in> set (ts @ [t_last]). t - t0 < W)
     \<longrightarrow> fst (attempts_run req action N W (t0 # ts @ [t_last]) d)
           = replicate (nat N) None @ [Some (too_many 300 False)]
       \<and> status (too_many 300 False) = 429
       \<and> rate_limits (snd (attempts_run req action N W (t0 # ts @ [t_last]) d))
            (getClientIP req, action)
           = Some \<lparr>attempts = N, window_start = t0,
                   blocked_until = Some (t_last + 5 * 60 * 1000)\<rparr>)
   \<and> (rate_limits d (getClientIP req, action) = Some limit \<and> \<not> blocked_now now limit
        \<and> window_start limit \<le> now - W
       \<longrightarrow> fst (checkRateLimit now req action N W d) = None
           \<and> rate_limits (snd (checkRateLimit now req action N W d)) (getClientIP req, action)
               = Some (limit\<lparr>attempts := 1, window_start := now, blocked_until := None\<rparr>))
   \<and> (rate_limits d (getClientIP req, action) = Some limit \<and> blocked_until limit = Some b
        \<and> now < b
       \<longrightarrow> (\<exists>r. checkRateLimit now req action N W d = (Some r, d) \<and> status r = 429
              \<and> headers r = [(''Retry-After'', JNum (of_int \<lceil>real_of_int (b - now) / 1000\<rceil>))]))"
proof (intro conjI impI)
  assume a: "opens_window t0 W (rate_limits d (getClientIP req, action)) \<and> 1 \<le> N
      \<and> int (length ts) = N - 1 \<and> (\<forall>t \<in> set (ts @ [t_last]). t - t0 < W)"
  then have r: "fst (attempts_run req action N W (t0 # ts @ [t_last]) d)
           = replicate (nat N) None @ [Some (too_many 300 False)]
       \<and> rate_limits (snd (attempts_run req action N W (t0 # ts @ [t_last]) d))
            (getClientIP req, action)
           = Some \<lparr>attempts = N, window_start = t0,
                   blocked_until = Some (t_last + 5 * 60 * 1000)\<rparr>"
    using run_limit_reached [of t0 W d req action N ts t_last] by blast
  from r show "fst (attempts_run req action N W (t0 # ts @ [t_last]) d)
           = replicate (nat N) None @ [Some (too_many 300 False)]" by blast
  from r show "rate_limits (snd (attempts_run req action N W (t0 # ts @ [t_last]) d))
            (getClientIP req, action)
           = Some \<lparr>attempts = N, window_start = t0,
                   blocked_until = Some (t_last + 5 * 60 * 1000)\<rparr>" by blast
  show "status (too_many 300 False) = 429" by (simp add: too_many_def)
next
  assume a: "rate_limits d (getClientIP req, action) = Some limit \<and> \<not> blocked_now now limit
        \<and> window_start limit \<le> now - W"
  then have s: "checkRateLimit now req action N W d =
     (None,
      d\<lparr>rate_limits := (rate_limits d)((getClientIP req, action) \<mapsto>
           limit\<lparr>attempts := 1, window_start := now, blocked_until := None\<rparr>)\<rparr>)"
    using rl_reset by blast
  from s show "fst (checkRateLimit now req action N W d) = None" by simp
  from s show "rate_limits (snd (checkRateLimit now req action N W d)) (getClientIP req, action)
               = Some (limit\<lparr>attempts := 1, window_start := now, blocked_until := None\<rparr>)"
    by simp
next
  assume a: "rate_limits d (getClientIP req, action) = Some limit \<and> blocked_until limit = Some b
        \<and> now < b"
  then have "checkRateLimit now req action N W d
               = (Some (too_many \<lceil>real_of_int (b - now) / 1000\<rceil> True), d)"
    using rl_blocked by blast
  then show "\<exists>r. checkRateLimit now req action N W d = (Some r, d) \<and> status r = 429
              \<and> headers r = [(''Retry-After'', JNum (of_int \<lceil>real_of_int (b - now) / 1000\<rceil>))]"
    by (simp add: too_many_def)
qed

lemma example_ip: "getClientIP (request_from tok) = ''10.0.0.1''"
  by (simp add: getClientIP_def request_from_def js_or_def truthy_def)

theorem checkRateLimit_window_witness:
  "fst (attempts_run (request_from None) ''login'' 2 60000 [1000, 2000, 3000] example_db)
     = [None, None, Some (too_many 300 False)]
   \<and> rate_limits (snd (attempts_run (request_from None) ''login'' 2 60000 [1000, 2000, 3000]
                          example_db)) (''10.0.0.1'', ''login'')
     = Some \<lparr>attempts = 2, window_start = 1000, blocked_until = Some 303000\<rparr>
   \<and> rate_limits limited_db (''10.0.0.1'', ''login'')
     = Some \<lparr>attempts = 5, window_start = 0, blocked_until = Some 500000\<rparr>
   \<and> fst (attempts_run (request_from None) ''login'' 2 60000 [600000, 600500, 601000] limited_db)
     = [None, None, Some (too_many 300 False)]
   \<and> fst (checkRateLimit 600000 (request_from None) ''login'' 2 60000 limited_db) = None
   \<and> rate_limits (snd (checkRateLimit 600000 (request_from None) ''login'' 2 60000 limited_db))
        (''10.0.0.1'', ''login'')
     = Some \<lparr>attempts = 1, window_start = 600000, blocked_until = None\<rparr>
   \<and> status (the (fst (checkRateLimit 100000 (request_from None) ''login'' 2 60000 limited_db)))
     = 429
   \<and> headers (the (fst (checkRateLimit 100000 (request_from None) ''login'' 2 60000 limited_db)))
     = [(''Retry-After'', JNum 400)]
   \<and> snd (checkRateLimit 100000 (request_from None) ''login'' 2 60000 limited_db) = limited_db"
proof -
  let ?req = "request_from None"
  let ?row = "\<lparr>attempts = 5, window_start = 0, blocked_until = Some 500000\<rparr>"
  have row: "rate_limits limited_db (getClientIP ?req, ''login'') = Some ?row"
    by (simp add: limited_db_def example_ip)
  have none: "rate_limits example_db (getClientIP ?req, ''login'') = None"
    by (simp add: example_db_def)
  have two_nones: "replicate (nat 2) (None :: response option) = [None, None]"
    by (simp add: eval_nat_numeral)
  have one: "fst (attempts_run ?req ''login'' 2 60000 [1000, 2000, 3000] example_db)
           = [None, None, Some (too_many 300 False)]
       \<and> rate_limits (snd (attempts_run ?req ''login'' 2 60000 [1000, 2000, 3000] example_db))
            (''10.0.0.1'', ''login'')
           = Some \<lparr>attempts = 2, window_start = 1000, blocked_until = Some 303000\<rparr>"
    using checkRateLimit_window [where d = example_db and req = ?req and action = "''login''"
        and N = 2 and ts = "[2000]" and t_last = 3000 and ?t0.0 = 1000 and W = 60000]
      none two_nones
    by (simp add: example_ip opens_window_def del: attempts_run.simps)
  have one': "fst (attempts_run ?req ''login'' 2 60000 [600000, 600500, 601000] limited_db)
           = [None, None, Some (too_many 300 False)]"
    using checkRateLimit_window [where d = limited_db and req = ?req and action = "''login''"
        and N = 2 and ts = "[600500]" and t_last = 601000 and ?t0.0 = 600000 and W = 60000]
      row two_nones
    by (simp add: opens_window_def blocked_now_def del: attempts_run.simps)
  have two: "fst (checkRateLimit 600000 ?req ''login'' 2 60000 limited_db) = None
           \<and> rate_limits (snd (checkRateLimit 600000 ?req ''login'' 2 60000 limited_db))
                (getClientIP ?req, ''login'')
               = Some \<lparr>attempts = 1, window_start = 600000, blocked_until = None\<rparr>"
    using checkRateLimit_window [where d = limited_db and req = ?req and action = "''login''"
        and N = 2 and W = 60000 and limit = ?row and now = 600000] row
    by (simp add: blocked_now_def)
  have "\<exists>r. checkRateLimit 100000 ?req ''login'' 2 60000 limited_db = (Some r, limited_db)
              \<and> status r = 429
              \<and> headers r = [(''Retry-After'', JNum (of_int \<lceil>real_of_int (500000 - 100000) / 1000\<rceil>))]"
    using checkRateLimit_window [where d = limited_db and req = ?req and action = "''login''"
        and N = 2 and W = 60000 and limit = ?row and now = 100000 and b = 500000] row
    by simp
  then have three:
    "status (the (fst (checkRateLimit 100000 ?req ''login'' 2 60000 limited_db))) = 429
     \<and> headers (the (fst (checkRateLimit 100000 ?req ''login'' 2 60000 limited_db)))
         = [(''Retry-After'', JNum 400)]
     \<and> snd (checkRateLimit 100000 ?req ''login'' 2 60000 limited_db) = limited_db"
    by auto
  from one one' two three row show ?thesis
    by (simp add: example_ip del: attempts_run.simps)
qed

section \<open>Properties of the permission guard\<close>

lemma hasPermission_iff:
  "hasPermission e u p \<longleftrightarrow>
     u_role u = ''admin'' \<and>
     (isSuperAdmin e u
      \<or> (\<exists>ps. admin_permissions u = Some ps \<and> ps (permission_name p) = Some True))"
  by (simp add: hasPermission_def split: option.splits)

lemma terminate_result:
  assumes "\<not> isSuperAdmin e u" and "\<not> hasPermission e u permission"
  shows "checkPermissionOrTerminate txt e now u permission req d =
     (Some (json 403 [(''error'', JStr (v_error txt)), (''terminated'', JBool True),
                      (''message'', JStr (v_message txt))]),
      d\<lparr>users := update_where (\<lambda>r. u_id r = u_id u)
                    (\<lambda>r. r\<lparr>u_role := ''user'', admin_permissions := None\<rparr>) (users d),
        refresh_tokens := update_where (\<lambda>t. rt_user_id t = u_id u)
                    (\<lambda>t. t\<lparr>revoked_at := Some now\<rparr>) (refresh_tokens d),
        activity_logs := activity_logs d @
                [\<lparr>l_user_id = Some (u_id u), l_action = ''ADMIN_ACCESS_TERMINATED'',
                  l_resource_type = ''user'', l_resource_id = Some (u_id u),
                  l_details = [(''reason'', JStr (v_reason txt)),
                               (''attempted_permission'', JStr (permission_name permission))],
                  l_ip_address = Some (getClientIP req),
                  l_user_agent = Some (getUserAgent req)\<rparr>]\<rparr>)"
  using assms by (simp add: checkPermissionOrTerminate_def Let_def logActivity_def)

text \<open>
  Claim C3.  When an admin who is not a super-admin attempts an action gated by a
  permission that their permission set does not grant, the guard demotes every user row
  with their id to role \<open>user\<close> with \<open>admin_permissions\<close> cleared, stamps every refresh
  token of theirs as revoked, appends an \<open>ADMIN_ACCESS_TERMINATED\<close> entry to the audit log,
  and answers 403 with \<open>terminated: true\<close>; orders and tickets are untouched.
\<close>

theorem checkPermissionOrTerminate_terminates:
  assumes admin: "u_role u = ''admin''"
      and not_super: "\<not> isSuperAdmin e u"
      and lacks: "admin_permissions u = None
                  \<or> (\<exists>ps. admin_permissions u = Some ps
                          \<and> ps (permission_name permission) \<noteq> Some True)"
  shows "\<exists>r d'. checkPermissionOrTerminate txt e now u permission req d = (Some r, d')
           \<and> status r = 403 \<and> (''terminated'', JBool True) \<in> set (body r)
           \<and> users d' = map (\<lambda>x. if u_id x = u_id u
                                   then x\<lparr>u_role := ''user'', admin_permissions := None\<rparr> else x)
                            (users d)
           \<and> (\<forall>x \<in> set (users d'). u_id x = u_id u
                  \<longrightarrow> u_role x = ''user'' \<and> admin_permissions x = None)
           \<and> refresh_tokens d' = map (\<lambda>t. if rt_user_id t = u_id u
                                            then t\<lparr>revoked_at := Some now\<rparr> else t)
                                     (refresh_tokens d)
           \<and> (\<forall>t \<in> set (refresh_tokens d'). rt_user_id t = u_id u \<longrightarrow> revoked_at t = Some now)
           \<and> activity_logs d' = activity_logs d @
                [\<lparr>l_user_id = Some (u_id u), l_action = ''ADMIN_ACCESS_TERMINATED'',
                  l_resource_type = ''user'', l_resource_id = Some (u_id u),
                  l_details = [(''reason'', JStr (v_reason txt)),
                               (''attempted_permission'', JStr (permission_name permission))],
                  l_ip_address = Some (getClientIP req),
                  l_user_agent = Some (getUserAgent req)\<rparr>]
           \<and> orders d' = orders d \<and> tickets d' = tickets d
           \<and> ticket_messages d' = ticket_messages d"
proof -
  have np: "\<not> hasPermission e u permission"
    using not_super lacks by (auto simp: hasPermission_iff)
  define us where "us = map (\<lambda>x. if u_id x = u_id u
                                   then x\<lparr>u_role := ''user'', admin_permissions := None\<rparr> else x)
                            (users d)"
  define ts where "ts = map (\<lambda>t. if rt_user_id t = u_id u
                                            then t\<lparr>revoked_at := Some now\<rparr> else t)
                                     (refresh_tokens d)"
  define entry where "entry = \<lparr>l_user_id = Some (u_id u), l_action = ''ADMIN_ACCESS_TERMINATED'',
                  l_resource_type = ''user'', l_resource_id = Some (u_id u),
                  l_details = [(''reason'', JStr (v_reason txt)),
                               (''attempted_permission'', JStr (permission_name permission))],
                  l_ip_address = Some (getClientIP req),
                  l_user_agent = Some (getUserAgent req)\<rparr>"
  define r where "r = json 403 [(''error'', JStr (v_error txt)), (''terminated'', JBool True),
                      (''message'', JStr (v_message txt))]"
  define d' where "d' = d\<lparr>users := us, refresh_tokens := ts,
                           activity_logs := activity_logs d @ [entry]\<rparr>"
  have res: "checkPermissionOrTerminate txt e now u permission req d = (Some r, d')"
    unfolding r_def d'_def us_def ts_def entry_def
    using terminate_result [OF not_super np] by (simp add: update_where_def)
  have u: "\<forall>x \<in> set us. u_id x = u_id u \<longrightarrow> u_role x = ''user'' \<and> admin_permissions x = None"
    by (auto simp: us_def)
  have t: "\<forall>t \<in> set ts. rt_user_id t = u_id u \<longrightarrow> revoked_at t = Some now"
    by (auto simp: ts_def)
  have r: "status r = 403" "(''terminated'', JBool True) \<in> set (body r)"
    by (simp_all add: r_def json_def)
  have f: "users d' = us" "refresh_tokens d' = ts" "activity_logs d' = activity_logs d @ [entry]"
          "orders d' = orders d" "tickets d' = tickets d" "ticket_messages d' = ticket_messages d"
    by (simp_all add: d'_def)
  show ?thesis
    apply (rule exI [of _ r])
    apply (rule exI [of _ d'])
    using res u t r f
    unfolding us_def [symmetric] ts_def [symmetric] entry_def [symmetric]
    apply (intro conjI)
    apply (simp_all only:)
    done
qed

lemma example_not_super: "\<not> isSuperAdmin example_env bob"
  by (simp add: isSuperAdmin_def getSuperAdmins_def example_env_def bob_def toLowerCase_def
        trim_def is_space_def lower_char_def)

theorem checkPermissionOrTerminate_terminates_witness:
  "u_role bob = ''admin'' \<and> \<not> isSuperAdmin example_env bob
   \<and> admin_permissions bob = Some [''manage_tickets'' \<mapsto> True, ''manage_users'' \<mapsto> False]
   \<and> status (the (fst (checkPermissionOrTerminate orders_texts example_env 900 bob
                          manage_orders (request_from (Some ''tok-u2'')) example_db))) = 403
   \<and> users (snd (checkPermissionOrTerminate orders_texts example_env 900 bob
                    manage_orders (request_from (Some ''tok-u2'')) example_db))
       = [alice, bob\<lparr>u_role := ''user'', admin_permissions := None\<rparr>]
   \<and> refresh_tokens (snd (checkPermissionOrTerminate orders_texts example_env 900 bob
                    manage_orders (request_from (Some ''tok-u2'')) example_db))
       = [\<lparr>rt_id = ''r1'', rt_user_id = ''u2'', revoked_at = Some 900\<rparr>,
          \<lparr>rt_id = ''r2'', rt_user_id = ''u1'', revoked_at = None\<rparr>]
   \<and> map l_action (activity_logs (snd (checkPermissionOrTerminate orders_texts example_env 900 bob
                    manage_orders (request_from (Some ''tok-u2'')) example_db)))
       = [''ADMIN_ACCESS_TERMINATED'']"
proof -
  have a: "u_role bob = ''admin''" by (simp add: bob_def)
  have p: "admin_permissions bob = Some [''manage_tickets'' \<mapsto> True, ''manage_users'' \<mapsto> False]"
    by (simp add: bob_def)
  have l: "admin_permissions bob = None
           \<or> (\<exists>ps. admin_permissions bob = Some ps
                   \<and> ps (permission_name manage_orders) \<noteq> Some True)"
    by (simp add: bob_def)
  from checkPermissionOrTerminate_terminates [OF a example_not_super l,
      of orders_texts 900 "request_from (Some ''tok-u2'')" example_db]
  obtain r d' where
    r: "checkPermissionOrTerminate orders_texts example_env 900 bob manage_orders
          (request_from (Some ''tok-u2'')) example_db = (Some r, d')"
       "status r = 403"
       "users d' = map (\<lambda>x. if u_id x = u_id bob
                                   then x\<lparr>u_role := ''user'', admin_permissions := None\<rparr> else x)
                            (users example_db)"
       "refresh_tokens d' = map (\<lambda>t. if rt_user_id t = u_id bob
                                            then t\<lparr>revoked_at := Some 900\<rparr> else t)
                                     (refresh_tokens example_db)"
       "activity_logs d' = activity_logs example_db @
                [\<lparr>l_user_id = Some (u_id bob), l_action = ''ADMIN_ACCESS_TERMINATED'',
                  l_resource_type = ''user'', l_resource_id = Some (u_id bob),
                  l_details = [(''reason'', JStr (v_reason orders_texts)),
                               (''attempted_permission'', JStr (permission_name manage_orders))],
                  l_ip_address = Some (getClientIP (request_from (Some ''tok-u2''))),
                  l_user_agent = Some (getUserAgent (request_from (Some ''tok-u2'')))\<rparr>]"
    by blast
  have "users d' = [alice, bob\<lparr>u_role := ''user'', admin_permissions := None\<rparr>]"
    using r(3) by (simp add: example_db_def alice_def bob_def)
  moreover have "refresh_tokens d' = [\<lparr>rt_id = ''r1'', rt_user_id = ''u2'', revoked_at = Some 900\<rparr>,
          \<lparr>rt_id = ''r2'', rt_user_id = ''u1'', revoked_at = None\<rparr>]"
    using r(4) by (simp add: example_db_def bob_def)
  moreover have "map l_action (activity_logs d') = [''ADMIN_ACCESS_TERMINATED'']"
    using r(5) by (simp add: example_db_def)
  ultimately show ?thesis
    using a p example_not_super r(1,2) by simp
qed

section \<open>Properties of the order listing\<close>

lemma range_rows_subset:
  "range_rows offs lmt rows = Some out \<Longrightarrow> set out \<subseteq> set rows"
proof -
  assume a: "range_rows offs lmt rows = Some out"
  then have "out = take (nat lmt) (drop (nat offs) (sort_key (\<lambda>r. - o_created_at r) rows))"
    by (simp add: range_rows_def split: if_splits)
  then have "set out \<subseteq> set (sort_key (\<lambda>r. - o_created_at r) rows)"
    by (metis set_take_subset set_drop_subset subset_trans)
  then show ?thesis by simp
qed

lemma list_orders_rows:
  assumes "(''orders'', JOrders rows) \<in> set (body (list_orders q visible d))"
  shows "set rows \<subseteq> {r \<in> set (orders d). visible r}"
proof -
  let ?page = "num_or (q_page q) 1"
  let ?lmt = "min (num_or (q_limit q) 20) 100"
  show ?thesis
  proof (cases "range_rows ((?page - 1) * ?lmt) ?lmt (filter visible (orders d))")
    case None
    with assms show ?thesis by (simp add: list_orders_def Let_def json_def)
  next
    case (Some out)
    with assms have "rows = out" by (simp add: list_orders_def Let_def json_def)
    with range_rows_subset [OF Some] show ?thesis by auto
  qed
qed

text \<open>
  Claim C10.  For an authenticated user whose role is not \<open>admin\<close>, every order in the
  list that \<open>handleGetOrders\<close> returns is a stored order whose \<open>user_id\<close> is the
  requesting user's id; so no guest order (\<open>user_id\<close> null) and no other user's order is in
  the response.
\<close>

theorem handleGetOrders_own_orders_only:
  assumes auth: "requireAuth e req d = Inr u"
      and role: "u_role u \<noteq> ''admin''"
      and listed: "(''orders'', JOrders rows) \<in> set (body (fst (handleGetOrders e now req q d)))"
  shows "\<forall>r \<in> set rows. r \<in> set (orders d) \<and> o_user_id r = Some (u_id u)"
proof -
  from auth role have "fst (handleGetOrders e now req q d)
      = list_orders q (\<lambda>r. o_user_id r = Some (u_id u)) d"
    by (simp add: handleGetOrders_def)
  with listed list_orders_rows show ?thesis by fastforce
qed

lemma handleGetOrders_user:
  assumes auth: "requireAuth e req d = Inr u" and role: "u_role u \<noteq> ''admin''"
  shows "handleGetOrders e now req q d = (list_orders q (\<lambda>r. o_user_id r = Some (u_id u)) d, d)"
  using assms by (simp add: handleGetOrders_def)

lemma example_auth_alice: "requireAuth example_env (request_from (Some ''tok-u1'')) example_db = Inr alice"
  by (simp add: requireAuth_def request_token_def request_from_def truthy_def example_env_def
      toy_verify_def single_def example_db_def alice_def bob_def)

lemma example_listing:
  "list_orders \<lparr>q_page = None, q_limit = None\<rparr> (\<lambda>r. o_user_id r = Some (u_id alice)) example_db
    = json 200 [(''success'', JBool True), (''orders'', JOrders [order1]),
                       (''pagination'',
                        JObj [(''page'', JNum 1), (''limit'', JNum 20),
                              (''total'', JNull)])]"
  by (simp add: list_orders_def num_or_def range_rows_def example_db_def order1_def order2_def order3_def alice_def)

theorem handleGetOrders_own_orders_only_witness:
  "requireAuth example_env (request_from (Some ''tok-u1'')) example_db = Inr alice
   \<and> u_role alice \<noteq> ''admin''
   \<and> (''orders'', JOrders [order1])
        \<in> set (body (fst (handleGetOrders example_env 0 (request_from (Some ''tok-u1''))
                             \<lparr>q_page = None, q_limit = None\<rparr> example_db)))
   \<and> order1 \<in> set (orders example_db) \<and> o_user_id order1 = Some (u_id alice)"
proof -
  have role: "u_role alice \<noteq> ''admin''" by (simp add: alice_def)
  have listed: "(''orders'', JOrders [order1])
        \<in> set (body (fst (handleGetOrders example_env 0 (request_from (Some ''tok-u1''))
                             \<lparr>q_page = None, q_limit = None\<rparr> example_db)))"
    by (simp add: handleGetOrders_user [OF example_auth_alice role] example_listing json_def)
  from handleGetOrders_own_orders_only [OF example_auth_alice role listed]
  have "order1 \<in> set (orders example_db) \<and> o_user_id order1 = Some (u_id alice)" by simp
  with example_auth_alice role listed show ?thesis by blast
qed

section \<open>Properties of the ticket handlers\<close>

lemma requireAuth_status:
  "requireAuth e req d = Inl r \<Longrightarrow> status r = 401 \<or> status r = 403"
  by (auto simp: requireAuth_def json_def split: option.splits if_splits)

lemma closed_ticket_rejects:
  assumes tk: "single (\<lambda>t. t_id t = ticketId) (tickets d) = Some tk"
      and closed: "t_status tk = ''closed''"
  shows "400 \<le> status (fst (handleAddMessage e now mid req ticketId b d))
       \<and> status (fst (handleAddMessage e now mid req ticketId b d)) < 500
       \<and> ticket_messages (snd (handleAddMessage e now mid req ticketId b d)) = ticket_messages d
       \<and> tickets (snd (handleAddMessage e now mid req ticketId b d)) = tickets d"
proof (cases "requireAuth e req d")
  case (Inl r)
  with requireAuth_status [OF Inl] show ?thesis
    by (auto simp: handleAddMessage_def)
next
  case (Inr u)
  obtain rl d1 where rl: "(if u_role u \<noteq> ''admin''
            then checkRateLimit now req (''add_message_'' @ u_id u) 200 3600000 d
            else (None, d)) = (rl, d1)"
    by (cases "(if u_role u \<noteq> ''admin''
            then checkRateLimit now req (''add_message_'' @ u_id u) 200 3600000 d
            else (None, d))")
  have frame: "tickets d1 = tickets d" "ticket_messages d1 = ticket_messages d"
    using rl checkRateLimit_frame [of now req "''add_message_'' @ u_id u" 200 3600000 d rl d1]
    by (auto split: if_splits)
  show ?thesis
  proof (cases rl)
    case None
    with Inr rl frame tk closed show ?thesis
      by (simp add: handleAddMessage_def json_def)
  next
    case (Some r)
    then have "status r = 429"
      using rl checkRateLimit_status [of now req "''add_message_'' @ u_id u" 200 3600000 d r d1]
      by (auto split: if_splits)
    with Some Inr rl frame show ?thesis
      by (simp add: handleAddMessage_def)
  qed
qed

lemma closed_ticket_400:
  assumes auth: "requireAuth e req d = Inr u"
      and rl: "u_role u \<noteq> ''admin'' \<longrightarrow>
                 fst (checkRateLimit now req (''add_message_'' @ u_id u) 200 3600000 d) = None"
      and tk: "single (\<lambda>t. t_id t = ticketId) (tickets d) = Some tk"
      and own: "u_role u = ''admin'' \<or> t_user_id tk = Some (u_id u)"
      and closed: "t_status tk = ''closed''"
  shows "status (fst (handleAddMessage e now mid req ticketId b d)) = 400"
proof (cases "u_role u = ''admin''")
  case True
  with auth tk closed show ?thesis by (simp add: handleAddMessage_def json_def)
next
  case False
  obtain r d1 where c: "checkRateLimit now req (''add_message_'' @ u_id u) 200 3600000 d = (r, d1)"
    by (cases "checkRateLimit now req (''add_message_'' @ u_id u) 200 3600000 d")
  with rl False have r: "r = None" by simp
  have "tickets d1 = tickets d" using checkRateLimit_frame [OF c] by simp
  with False auth c r tk own closed show ?thesis
    by (simp add: handleAddMessage_def json_def)
qed

lemma update_where_single:
  assumes "single P rows = Some r" and "\<And>x. P (f x) = P x"
  shows "single P (update_where P f rows) = Some (f r)"
proof -
  have "filter P (map (\<lambda>r. if P r then f r else r) rows) = map f (filter P rows)"
    using assms(2) by (induction rows) auto
  moreover from assms(1) have "filter P rows = [r]"
    by (auto simp: single_def split: list.splits)
  ultimately show ?thesis by (simp add: single_def update_where_def)
qed

lemma owner_closes:
  assumes auth: "requireAuth e req d = Inr u"
      and role: "u_role u \<noteq> ''admin''"
      and tk: "single (\<lambda>t. t_id t = ticketId) (tickets d) = Some tk"
      and own: "t_user_id tk = Some (u_id u)"
      and st: "tb_status b = Some ''closed''"
      and pr: "\<not> truthy (tb_priority b)"
  shows "status (fst (handleUpdateTicket e now req ticketId b d)) = 200
       \<and> single (\<lambda>t. t_id t = ticketId) (tickets (snd (handleUpdateTicket e now req ticketId b d)))
           = Some (tk\<lparr>t_updated_at := now, t_status := ''closed'', resolved_at := Some now\<rparr>)"
proof -
  have ap: "apply_ticket_update now (Some ''closed'') (tb_priority b)
              = (\<lambda>t. t\<lparr>t_updated_at := now, t_status := ''closed'', resolved_at := Some now\<rparr>)"
    using pr by (auto simp: apply_ticket_update_def truthy_def Let_def)
  have s: "single (\<lambda>t. t_id t = ticketId)
             (update_where (\<lambda>t. t_id t = ticketId)
                (\<lambda>t. t\<lparr>t_updated_at := now, t_status := ''closed'', resolved_at := Some now\<rparr>)
                (tickets d))
           = Some (tk\<lparr>t_updated_at := now, t_status := ''closed'', resolved_at := Some now\<rparr>)"
    by (rule update_where_single [OF tk]) simp
  have "''closed'' \<in> set validStatuses" by (simp add: validStatuses_def)
  with auth role tk own st pr ap s show ?thesis
    by (simp add: handleUpdateTicket_def update_status_part_def update_priority_part_def
          finish_ticket_update_def truthy_def json_def logActivity_def Let_def)
qed

lemma non_admin_other_status:
  assumes auth: "requireAuth e req d = Inr u"
      and role: "u_role u \<noteq> ''admin''"
      and tk: "single (\<lambda>t. t_id t = ticketId) (tickets d) = Some tk"
      and st: "tb_status b = Some st" "st \<in> set validStatuses" "st \<noteq> ''closed''"
  shows "handleUpdateTicket e now req ticketId b d
           = (json 403 [(''error'', JStr (if t_user_id tk = Some (u_id u)
                                           then ''Only admin can change to this status''
                                           else ''Access denied''))], d)"
proof -
  have "st \<noteq> []" using st(2) by (auto simp: validStatuses_def)
  with assms show ?thesis
    by (simp add: handleUpdateTicket_def update_status_part_def truthy_def)
qed

text \<open>
  Claim C9.  A non-admin owner's request to set the status of their ticket to \<open>closed\<close>
  (with no priority change) succeeds with 200 and the ticket is stored closed; a non-admin's
  request for any other ticket status is rejected with 403 and changes nothing; posting a
  message to a closed ticket is answered with a 4xx status and appends no message, and that
  status is 400 for the ticket's owner or an admin whom the rate limiter admits.
\<close>

theorem ticket_status_rules:
  "(requireAuth e req d = Inr u \<and> u_role u \<noteq> ''admin''
      \<and> single (\<lambda>t. t_id t = ticketId) (tickets d) = Some tk \<and> t_user_id tk = Some (u_id u)
      \<and> tb_status b = Some ''closed'' \<and> \<not> truthy (tb_priority b)
     \<longrightarrow> status (fst (handleUpdateTicket e now req ticketId b d)) = 200
       \<and> single (\<lambda>t. t_id t = ticketId) (tickets (snd (handleUpdateTicket e now req ticketId b d)))
           = Some (tk\<lparr>t_updated_at := now, t_status := ''closed'', resolved_at := Some now\<rparr>))
   \<and> (requireAuth e req d = Inr u \<and> u_role u \<noteq> ''admin''
      \<and> single (\<lambda>t. t_id t = ticketId) (tickets d) = Some tk
      \<and> tb_status b = Some st \<and> st \<in> set validStatuses \<and> st \<noteq> ''closed''
     \<longrightarrow> status (fst (handleUpdateTicket e now req ticketId b d)) = 403
       \<and> snd (handleUpdateTicket e now req ticketId b d) = d)
   \<and> (single (\<lambda>t. t_id t = ticketId) (tickets d) = Some tk \<and> t_status tk = ''closed''
     \<longrightarrow> 400 \<le> status (fst (handleAddMessage e now mid req ticketId mb d))
       \<and> status (fst (handleAddMessage e now mid req ticketId mb d)) < 500
       \<and> ticket_messages (snd (handleAddMessage e now mid req ticketId mb d)) = ticket_messages d
       \<and> (requireAuth e req d = Inr u
            \<and> (u_role u = ''admin'' \<or> t_user_id tk = Some (u_id u))
            \<and> (u_role u \<noteq> ''admin'' \<longrightarrow>
                 fst (checkRateLimit now req (''add_message_'' @ u_id u) 200 3600000 d) = None)
           \<longrightarrow> status (fst (handleAddMessage e now mid req ticketId mb d)) = 400))"
proof (intro conjI impI)
  assume a: "requireAuth e req d = Inr u \<and> u_role u \<noteq> ''admin''
      \<and> single (\<lambda>t. t_id t = ticketId) (tickets d) = Some tk \<and> t_user_id tk = Some (u_id u)
      \<and> tb_status b = Some ''closed'' \<and> \<not> truthy (tb_priority b)"
  then have r: "status (fst (handleUpdateTicket e now req ticketId b d)) = 200
       \<and> single (\<lambda>t. t_id t = ticketId) (tickets (snd (handleUpdateTicket e now req ticketId b d)))
           = Some (tk\<lparr>t_updated_at := now, t_status := ''closed'', resolved_at := Some now\<rparr>)"
    using owner_closes [of e req d u ticketId tk b now] by blast
  from r show "status (fst (handleUpdateTicket e now req ticketId b d)) = 200" by blast
  from r show "single (\<lambda>t. t_id t = ticketId) (tickets (snd (handleUpdateTicket e now req ticketId b d)))
           = Some (tk\<lparr>t_updated_at := now, t_status := ''closed'', resolved_at := Some now\<rparr>)"
    by blast
next
  assume a: "requireAuth e req d = Inr u \<and> u_role u \<noteq> ''admin''
      \<and> single (\<lambda>t. t_id t = ticketId) (tickets d) = Some tk
      \<and> tb_status b = Some st \<and> st \<in> set validStatuses \<and> st \<noteq> ''closed''"
  then have r: "handleUpdateTicket e now req ticketId b d
           = (json 403 [(''error'', JStr (if t_user_id tk = Some (u_id u)
                                           then ''Only admin can change to this status''
                                           else ''Access denied''))], d)"
    using non_admin_other_status [of e req d u ticketId tk b st now] by blast
  from r show "status (fst (handleUpdateTicket e now req ticketId b d)) = 403"
    by (simp add: json_def)
  from r show "snd (handleUpdateTicket e now req ticketId b d) = d" by simp
next
  assume a: "single (\<lambda>t. t_id t = ticketId) (tickets d) = Some tk \<and> t_status tk = ''closed''"
  then have r: "400 \<le> status (fst (handleAddMessage e now mid req ticketId mb d))
       \<and> status (fst (handleAddMessage e now mid req ticketId mb d)) < 500
       \<and> ticket_messages (snd (handleAddMessage e now mid req ticketId mb d)) = ticket_messages d"
    using closed_ticket_rejects [of ticketId d tk e now mid req mb] by blast
  from r show "400 \<le> status (fst (handleAddMessage e now mid req ticketId mb d))" by blast
  from r show "status (fst (handleAddMessage e now mid req ticketId mb d)) < 500" by blast
  from r show "ticket_messages (snd (handleAddMessage e now mid req ticketId mb d)) = ticket_messages d"
    by blast
  assume b: "requireAuth e req d = Inr u
            \<and> (u_role u = ''admin'' \<or> t_user_id tk = Some (u_id u))
            \<and> (u_role u \<noteq> ''admin'' \<longrightarrow>
                 fst (checkRateLimit now req (''add_message_'' @ u_id u) 200 3600000 d) = None)"
  with a show "status (fst (handleAddMessage e now mid req ticketId mb d)) = 400"
    using closed_ticket_400 [of e req d u now ticketId tk mid mb] by blast
qed

lemma example_ticket1: "single (\<lambda>t. t_id t = ''t1'') (tickets example_db) = Some ticket1"
  by (simp add: single_def example_db_def ticket1_def ticket2_def)

lemma example_ticket2: "single (\<lambda>t. t_id t = ''t2'') (tickets example_db) = Some ticket2"
  by (simp add: single_def example_db_def ticket1_def ticket2_def)

theorem ticket_status_rules_witness:
  "requireAuth example_env (request_from (Some ''tok-u1'')) example_db = Inr alice
   \<and> u_role alice \<noteq> ''admin''
   \<and> single (\<lambda>t. t_id t = ''t1'') (tickets example_db) = Some ticket1
   \<and> t_user_id ticket1 = Some (u_id alice) \<and> t_status ticket1 = ''open''
   \<and> status (fst (handleUpdateTicket example_env 700 (request_from (Some ''tok-u1'')) ''t1''
                \<lparr>tb_status = Some ''closed'', tb_priority = None\<rparr> example_db)) = 200
   \<and> single (\<lambda>t. t_id t = ''t1'')
        (tickets (snd (handleUpdateTicket example_env 700 (request_from (Some ''tok-u1'')) ''t1''
                \<lparr>tb_status = Some ''closed'', tb_priority = None\<rparr> example_db)))
       = Some (ticket1\<lparr>t_updated_at := 700, t_status := ''closed'', resolved_at := Some 700\<rparr>)
   \<and> status (fst (handleUpdateTicket example_env 700 (request_from (Some ''tok-u1'')) ''t1''
                \<lparr>tb_status = Some ''resolved'', tb_priority = None\<rparr> example_db)) = 403
   \<and> snd (handleUpdateTicket example_env 700 (request_from (Some ''tok-u1'')) ''t1''
                \<lparr>tb_status = Some ''resolved'', tb_priority = None\<rparr> example_db) = example_db
   \<and> single (\<lambda>t. t_id t = ''t2'') (tickets example_db) = Some ticket2
   \<and> t_status ticket2 = ''closed''
   \<and> status (fst (handleAddMessage example_env 700 ''m1'' (request_from (Some ''tok-u1'')) ''t2''
                \<lparr>mb_message = Some ''hello'', mb_attachments = []\<rparr> example_db)) = 400
   \<and> ticket_messages (snd (handleAddMessage example_env 700 ''m1'' (request_from (Some ''tok-u1''))
                ''t2'' \<lparr>mb_message = Some ''hello'', mb_attachments = []\<rparr> example_db))
       = ticket_messages example_db"
proof -
  have role: "u_role alice \<noteq> ''admin''" by (simp add: alice_def)
  have own1: "t_user_id ticket1 = Some (u_id alice)" "t_status ticket1 = ''open''"
    by (simp_all add: ticket1_def alice_def)
  have own2: "t_user_id ticket2 = Some (u_id alice)" "t_status ticket2 = ''closed''"
    by (simp_all add: ticket2_def alice_def)
  have rl: "fst (checkRateLimit 700 (request_from (Some ''tok-u1'')) (''add_message_'' @ u_id alice)
                   200 3600000 example_db) = None"
    by (simp add: checkRateLimit_def example_db_def)
  have A: "status (fst (handleUpdateTicket example_env 700 (request_from (Some ''tok-u1'')) ''t1''
                \<lparr>tb_status = Some ''closed'', tb_priority = None\<rparr> example_db)) = 200
   \<and> single (\<lambda>t. t_id t = ''t1'')
        (tickets (snd (handleUpdateTicket example_env 700 (request_from (Some ''tok-u1'')) ''t1''
                \<lparr>tb_status = Some ''closed'', tb_priority = None\<rparr> example_db)))
       = Some (ticket1\<lparr>t_updated_at := 700, t_status := ''closed'', resolved_at := Some 700\<rparr>)"
    using ticket_status_rules [of example_env "request_from (Some ''tok-u1'')" example_db alice
        "''t1''" ticket1 "\<lparr>tb_status = Some ''closed'', tb_priority = None\<rparr>" 700]
      example_auth_alice role example_ticket1 own1
    by (simp add: truthy_def)
  have B: "status (fst (handleUpdateTicket example_env 700 (request_from (Some ''tok-u1'')) ''t1''
                \<lparr>tb_status = Some ''resolved'', tb_priority = None\<rparr> example_db)) = 403
   \<and> snd (handleUpdateTicket example_env 700 (request_from (Some ''tok-u1'')) ''t1''
                \<lparr>tb_status = Some ''resolved'', tb_priority = None\<rparr> example_db) = example_db"
    using ticket_status_rules [of example_env "request_from (Some ''tok-u1'')" example_db alice
        "''t1''" ticket1 "\<lparr>tb_status = Some ''resolved'', tb_priority = None\<rparr>" 700 "''resolved''"]
      example_auth_alice role example_ticket1
    by (simp add: validStatuses_def)
  have C: "status (fst (handleAddMessage example_env 700 ''m1'' (request_from (Some ''tok-u1'')) ''t2''
                \<lparr>mb_message = Some ''hello'', mb_attachments = []\<rparr> example_db)) = 400
   \<and> ticket_messages (snd (handleAddMessage example_env 700 ''m1'' (request_from (Some ''tok-u1''))
                ''t2'' \<lparr>mb_message = Some ''hello'', mb_attachments = []\<rparr> example_db))
       = ticket_messages example_db"
    using ticket_status_rules [of example_env "request_from (Some ''tok-u1'')" example_db alice
        "''t2''" ticket2 _ 700 _ "''m1''" "\<lparr>mb_message = Some ''hello'', mb_attachments = []\<rparr>"]
      example_auth_alice role example_ticket2 own2 rl
    by simp
  from A B C example_auth_alice role example_ticket1 example_ticket2 own1 own2
  show ?thesis by blast
qed

section \<open>Properties of payment verification\<close>

lemma isValidSignature_iff:
  "isValidSignature expected sg \<longleftrightarrow> buffer_from_hex expected = buffer_from_hex sg"
  by (auto simp: isValidSignature_def timingSafeEqual_def)

lemma handleCors_post: "req_method req = ''POST'' \<Longrightarrow> handleCors req = None"
  by (simp add: handleCors_def)

text \<open>The outcomes of \<open>paymentVerify\<close>, branch by branch.\<close>

lemma verify_preflight:
  "req_method req = ''OPTIONS'' \<Longrightarrow> paymentVerify e now k m req b d = (json 200 [], d)"
  by (simp add: paymentVerify_def handleCors_def)

lemma verify_not_post:
  "req_method req \<noteq> ''OPTIONS'' \<Longrightarrow> req_method req \<noteq> ''POST'' \<Longrightarrow>
   paymentVerify e now k m req b d = (json 405 [(''error'', JStr ''Method not allowed'')], d)"
  by (simp add: paymentVerify_def handleCors_def)

lemma verify_limited:
  "req_method req = ''POST'' \<Longrightarrow>
   checkRateLimit now req ''payment_verify'' 10 60000 d = (Some r, d1) \<Longrightarrow>
   paymentVerify e now k m req b d = (r, d1)"
  by (simp add: paymentVerify_def handleCors_def)

lemma verify_missing:
  "req_method req = ''POST'' \<Longrightarrow>
   checkRateLimit now req ''payment_verify'' 10 60000 d = (None, d1) \<Longrightarrow>
   \<not> fields_present b \<Longrightarrow>
   status (fst (paymentVerify e now k m req b d)) = 400
   \<and> orders (snd (paymentVerify e now k m req b d)) = orders d1
   \<and> tickets (snd (paymentVerify e now k m req b d)) = tickets d1
   \<and> ticket_messages (snd (paymentVerify e now k m req b d)) = ticket_messages d1"
  by (simp add: paymentVerify_def handleCors_def fields_present_def json_def logActivity_def)

lemma verify_no_secret:
  "req_method req = ''POST'' \<Longrightarrow>
   checkRateLimit now req ''payment_verify'' 10 60000 d = (None, d1) \<Longrightarrow>
   fields_present b \<Longrightarrow> RAZORPAY_KEY_SECRET e = None \<Longrightarrow>
   paymentVerify e now k m req b d =
     (json 500 [(''success'', JBool False), (''error'', JStr ''Payment verification failed'')], d1)"
  by (simp add: paymentVerify_def handleCors_def fields_present_def)

lemma verify_bad_signature:
  "req_method req = ''POST'' \<Longrightarrow>
   checkRateLimit now req ''payment_verify'' 10 60000 d = (None, d1) \<Longrightarrow>
   fields_present b \<Longrightarrow> RAZORPAY_KEY_SECRET e = Some secret \<Longrightarrow>
   \<not> isValidSignature
       (hmac_sha256_hex e secret (the (b_razorpay_order_id b) @ ''|'' @ the (b_razorpay_payment_id b)))
       (the (b_razorpay_signature b)) \<Longrightarrow>
   paymentVerify e now k m req b d =
     (json 400 [(''success'', JBool False),
                (''error'', JStr ''Payment verification failed - invalid signature'')],
      logActivity None ''PAYMENT_SIGNATURE_INVALID'' ''order'' (Some (the (b_order_id b)))
        [(''razorpay_order_id'', JStr (the (b_razorpay_order_id b))),
         (''razorpay_payment_id'', JStr (the (b_razorpay_payment_id b)))] (Some req) d1)"
  by (simp add: paymentVerify_def handleCors_def fields_present_def Let_def)

lemma verify_mismatch:
  "req_method req = ''POST'' \<Longrightarrow>
   checkRateLimit now req ''payment_verify'' 10 60000 d = (None, d1) \<Longrightarrow>
   fields_present b \<Longrightarrow> RAZORPAY_KEY_SECRET e = Some secret \<Longrightarrow>
   isValidSignature
       (hmac_sha256_hex e secret (the (b_razorpay_order_id b) @ ''|'' @ the (b_razorpay_payment_id b)))
       (the (b_razorpay_signature b)) \<Longrightarrow>
   single (\<lambda>r. o_id r = the (b_order_id b) \<and> razorpay_order_id r = Some (the (b_razorpay_order_id b)))
     (orders d1) = None \<Longrightarrow>
   paymentVerify e now k m req b d =
     (json 404 [(''success'', JBool False),
                (''error'', JStr ''Order not found or Razorpay order ID mismatch'')],
      logActivity None ''PAYMENT_ORDER_MISMATCH'' ''order'' (Some (the (b_order_id b)))
        [(''razorpay_order_id'', JStr (the (b_razorpay_order_id b)))] (Some req) d1)"
  by (simp add: paymentVerify_def handleCors_def fields_present_def Let_def)

lemma verify_already:
  "req_method req = ''POST'' \<Longrightarrow>
   checkRateLimit now req ''payment_verify'' 10 60000 d = (None, d1) \<Longrightarrow>
   fields_present b \<Longrightarrow> RAZORPAY_KEY_SECRET e = Some secret \<Longrightarrow>
   isValidSignature
       (hmac_sha256_hex e secret (the (b_razorpay_order_id b) @ ''|'' @ the (b_razorpay_payment_id b)))
       (the (b_razorpay_signature b)) \<Longrightarrow>
   single (\<lambda>r. o_id r = the (b_order_id b) \<and> razorpay_order_id r = Some (the (b_razorpay_order_id b)))
     (orders d1) = Some ord \<Longrightarrow>
   payment_verified ord \<Longrightarrow>
   paymentVerify e now k m req b d =
     (json 200 [(''success'', JBool True), (''message'', JStr ''Payment already verified''),
                (''order_number'', JStr (order_number ord))], d1)"
  by (simp add: paymentVerify_def handleCors_def fields_present_def Let_def)

lemma verify_success:
  assumes "req_method req = ''POST''"
      and "checkRateLimit now req ''payment_verify'' 10 60000 d = (None, d1)"
      and "fields_present b" and "RAZORPAY_KEY_SECRET e = Some secret"
      and "isValidSignature
       (hmac_sha256_hex e secret (the (b_razorpay_order_id b) @ ''|'' @ the (b_razorpay_payment_id b)))
       (the (b_razorpay_signature b))"
      and "single (\<lambda>r. o_id r = the (b_order_id b) \<and> razorpay_order_id r = Some (the (b_razorpay_order_id b)))
     (orders d1) = Some ord"
      and "\<not> payment_verified ord"
  shows "status (fst (paymentVerify e now k m req b d)) = 200"
    and "orders (snd (paymentVerify e now k m req b d))
           = update_where (\<lambda>r. o_id r = the (b_order_id b))
               (mark_paid_verify (the (b_razorpay_payment_id b)) (the (b_razorpay_signature b)) now)
               (orders d1)"
  using assms
  by (simp_all add: paymentVerify_def handleCors_def fields_present_def Let_def json_def
        logActivity_def insert_ticket_def split: prod.splits option.splits)

lemma single_no_match: "\<forall>r \<in> set rows. \<not> P r \<Longrightarrow> single P rows = None"
proof -
  assume "\<forall>r \<in> set rows. \<not> P r"
  then have "filter P rows = []" by (simp add: filter_empty_conv)
  then show ?thesis by (simp add: single_def)
qed

text \<open>
  What the handler does reject.  A verification request whose signature does not decode to
  the bytes of the HMAC-SHA256 of \<open>razorpay_order_id + '|' + razorpay_payment_id\<close> under the
  gateway secret, or for which no stored order has both the given id and the given gateway
  order id, leaves the orders (and the tickets and their messages) as they are and is
  answered with 400, 404, 405 or 429 (unless it is a preflight); when it is a \<open>POST\<close> that
  the rate limiter admits and that carries all four parameters, the answer is 400 for the
  bad signature and 404 for the mismatch.
\<close>

lemma verify_rejects_other_bytes:
  assumes secret: "RAZORPAY_KEY_SECRET e = Some secret"
      and rid: "b_razorpay_order_id b = Some rid"
      and pid: "b_razorpay_payment_id b = Some pid"
      and sg: "b_razorpay_signature b = Some sg"
      and oid: "b_order_id b = Some oid"
      and bad: "buffer_from_hex sg \<noteq> buffer_from_hex (hmac_sha256_hex e secret (rid @ ''|'' @ pid))
                \<or> (\<forall>ord \<in> set (orders d). o_id ord = oid \<longrightarrow> razorpay_order_id ord \<noteq> Some rid)"
  shows "orders (snd (paymentVerify e now k m req b d)) = orders d
       \<and> tickets (snd (paymentVerify e now k m req b d)) = tickets d
       \<and> ticket_messages (snd (paymentVerify e now k m req b d)) = ticket_messages d
       \<and> (req_method req \<noteq> ''OPTIONS''
            \<longrightarrow> status (fst (paymentVerify e now k m req b d)) \<in> {400, 404, 405, 429})
       \<and> (req_method req = ''POST''
            \<and> fst (checkRateLimit now req ''payment_verify'' 10 60000 d) = None
            \<and> fields_present b
            \<longrightarrow> status (fst (paymentVerify e now k m req b d))
                = (if buffer_from_hex sg \<noteq> buffer_from_hex (hmac_sha256_hex e secret (rid @ ''|'' @ pid))
                   then 400 else 404))"
proof -
  let ?R = "paymentVerify e now k m req b d"
  let ?valid = "isValidSignature (hmac_sha256_hex e secret (rid @ ''|'' @ pid)) sg"
  obtain rl d1 where rl: "checkRateLimit now req ''payment_verify'' 10 60000 d = (rl, d1)"
    by (cases "checkRateLimit now req ''payment_verify'' 10 60000 d")
  have frame: "orders d1 = orders d" "tickets d1 = tickets d"
              "ticket_messages d1 = ticket_messages d"
    using checkRateLimit_frame [OF rl] by simp_all
  have the_fields: "the (b_razorpay_order_id b) = rid" "the (b_razorpay_payment_id b) = pid"
                   "the (b_razorpay_signature b) = sg" "the (b_order_id b) = oid"
    using rid pid sg oid by simp_all
  consider (preflight) "req_method req = ''OPTIONS''"
    | (other) "req_method req \<noteq> ''OPTIONS''" "req_method req \<noteq> ''POST''"
    | (limited) r where "req_method req = ''POST''" "rl = Some r"
    | (missing) "req_method req = ''POST''" "rl = None" "\<not> fields_present b"
    | (invalid) "req_method req = ''POST''" "rl = None" "fields_present b" "\<not> ?valid"
    | (mismatch) "req_method req = ''POST''" "rl = None" "fields_present b" "?valid"
    by (cases rl) auto
  then show ?thesis
  proof cases
    case preflight
    then show ?thesis by (simp add: verify_preflight)
  next
    case other
    then show ?thesis by (simp add: verify_not_post json_def)
  next
    case limited
    with rl have "?R = (r, d1)" by (simp add: verify_limited)
    moreover have "status r = 429" using rl limited checkRateLimit_status by blast
    ultimately show ?thesis using frame limited rl by simp
  next
    case missing
    with rl verify_missing [of req now d d1 b e k m] frame show ?thesis
      by simp
  next
    case invalid
    then have "?R = (json 400 [(''success'', JBool False),
                (''error'', JStr ''Payment verification failed - invalid signature'')],
      logActivity None ''PAYMENT_SIGNATURE_INVALID'' ''order'' (Some oid)
        [(''razorpay_order_id'', JStr rid), (''razorpay_payment_id'', JStr pid)] (Some req) d1)"
      using rl secret verify_bad_signature [of req now d d1 b e secret k m] the_fields by simp
    moreover have "buffer_from_hex sg \<noteq> buffer_from_hex (hmac_sha256_hex e secret (rid @ ''|'' @ pid))"
      using invalid(4) by (auto simp: isValidSignature_iff)
    ultimately show ?thesis using frame by (simp add: json_def logActivity_def)
  next
    case mismatch
    then have eq: "buffer_from_hex sg = buffer_from_hex (hmac_sha256_hex e secret (rid @ ''|'' @ pid))"
      by (simp add: isValidSignature_iff)
    with bad have "\<forall>ord \<in> set (orders d1). \<not> (o_id ord = oid \<and> razorpay_order_id ord = Some rid)"
      using frame by auto
    then have "single (\<lambda>r. o_id r = oid \<and> razorpay_order_id r = Some rid) (orders d1) = None"
      by (rule single_no_match)
    then have "?R = (json 404 [(''success'', JBool False),
                (''error'', JStr ''Order not found or Razorpay order ID mismatch'')],
      logActivity None ''PAYMENT_ORDER_MISMATCH'' ''order'' (Some oid)
        [(''razorpay_order_id'', JStr rid)] (Some req) d1)"
      using rl secret mismatch verify_mismatch [of req now d d1 b e secret k m] the_fields by simp
    then show ?thesis using frame eq by (simp add: json_def logActivity_def)
  qed
qed

lemma example_admitted:
  "checkRateLimit 1000 (request_from None) ''payment_verify'' 10 60000 example_db
     = (None, example_db\<lparr>rate_limits := [(''10.0.0.1'', ''payment_verify'') \<mapsto>
               \<lparr>attempts = 1, window_start = 1000, blocked_until = None\<rparr>]\<rparr>)"
  by (simp add: checkRateLimit_def example_ip example_db_def)

lemma example_hmac:
  "hmac_sha256_hex example_env ''key-secret'' (''order_A'' @ ''|'' @ ''pay_1'') = ''decade''"
  by (simp add: example_env_def toy_hmac_def)

lemma example_buffers:
  "buffer_from_hex ''decade'' = [222, 202, 222]"
  "buffer_from_hex ''DECADE'' = [222, 202, 222]"
  "buffer_from_hex ''deadbeef'' = [222, 173, 190, 239]"
  by (simp_all add: hex_digit_def)

lemma verify_rejects_other_bytes_example:
  "RAZORPAY_KEY_SECRET example_env = Some ''key-secret''
   \<and> buffer_from_hex ''deadbeef''
        \<noteq> buffer_from_hex (hmac_sha256_hex example_env ''key-secret'' (''order_A'' @ ''|'' @ ''pay_1''))
   \<and> status (fst (paymentVerify example_env 1000 ''t9'' ''m9'' (request_from None)
                    (verify_body_A ''deadbeef'' ''o1'') example_db)) = 400
   \<and> orders (snd (paymentVerify example_env 1000 ''t9'' ''m9'' (request_from None)
                    (verify_body_A ''deadbeef'' ''o1'') example_db)) = orders example_db
   \<and> buffer_from_hex ''DECADE''
        = buffer_from_hex (hmac_sha256_hex example_env ''key-secret'' (''order_A'' @ ''|'' @ ''pay_1''))
   \<and> status (fst (paymentVerify example_env 1000 ''t9'' ''m9'' (request_from None)
                    (verify_body_A ''DECADE'' ''o2'') example_db)) = 404
   \<and> orders (snd (paymentVerify example_env 1000 ''t9'' ''m9'' (request_from None)
                    (verify_body_A ''DECADE'' ''o2'') example_db)) = orders example_db"
proof -
  have secret: "RAZORPAY_KEY_SECRET example_env = Some ''key-secret''"
    by (simp add: example_env_def)
  have post: "req_method (request_from None) = ''POST''" by (simp add: request_from_def)
  have adm: "fst (checkRateLimit 1000 (request_from None) ''payment_verify'' 10 60000 example_db) = None"
    by (simp add: example_admitted)
  have ne: "buffer_from_hex ''deadbeef''
        \<noteq> buffer_from_hex (hmac_sha256_hex example_env ''key-secret'' (''order_A'' @ ''|'' @ ''pay_1''))"
    by (simp only: example_hmac example_buffers) simp
  have eq: "buffer_from_hex ''DECADE''
        = buffer_from_hex (hmac_sha256_hex example_env ''key-secret'' (''order_A'' @ ''|'' @ ''pay_1''))"
    by (simp only: example_hmac example_buffers)
  have no_match: "\<forall>ord \<in> set (orders example_db). o_id ord = ''o2'' \<longrightarrow> razorpay_order_id ord \<noteq> Some ''order_A''"
    by (simp add: example_db_def order1_def order2_def order3_def)
  have one: "status (fst (paymentVerify example_env 1000 ''t9'' ''m9'' (request_from None)
                    (verify_body_A ''deadbeef'' ''o1'') example_db)) = 400
   \<and> orders (snd (paymentVerify example_env 1000 ''t9'' ''m9'' (request_from None)
                    (verify_body_A ''deadbeef'' ''o1'') example_db)) = orders example_db"
    using verify_rejects_other_bytes [of example_env "''key-secret''" "verify_body_A ''deadbeef'' ''o1''"
        "''order_A''" "''pay_1''" "''deadbeef''" "''o1''" example_db 1000 "''t9''" "''m9''"
        "request_from None"] secret post adm ne
    by (simp add: verify_body_A_def fields_present_def truthy_def)
  have two: "status (fst (paymentVerify example_env 1000 ''t9'' ''m9'' (request_from None)
                    (verify_body_A ''DECADE'' ''o2'') example_db)) = 404
   \<and> orders (snd (paymentVerify example_env 1000 ''t9'' ''m9'' (request_from None)
                    (verify_body_A ''DECADE'' ''o2'') example_db)) = orders example_db"
    using verify_rejects_other_bytes [of example_env "''key-secret''" "verify_body_A ''DECADE'' ''o2''"
        "''order_A''" "''pay_1''" "''DECADE''" "''o2''" example_db 1000 "''t9''" "''m9''"
        "request_from None"] secret post adm eq no_match
    by (simp add: verify_body_A_def fields_present_def truthy_def)
  from secret ne eq one two show ?thesis by blast
qed

lemma update_where_single_sub:
  assumes "single P rows = Some r" and "\<And>x. P x \<Longrightarrow> Q x" and "\<And>x. P (f x) = P x"
  shows "single P (update_where Q f rows) = Some (f r)"
proof -
  have "filter P (map (\<lambda>r. if Q r then f r else r) rows) = map f (filter P rows)"
    using assms(2,3) by (induction rows) auto
  moreover from assms(1) have "filter P rows = [r]"
    by (auto simp: single_def split: list.splits)
  ultimately show ?thesis by (simp add: single_def update_where_def)
qed

text \<open>
  After a \<open>POST\<close> answered with 200, the request carried all four parameters and a valid
  signature, and the order it names is stored as verified.
\<close>

lemma verify_200_state:
  assumes post: "req_method req = ''POST''"
      and res: "paymentVerify e now k m req b d = (r, d')"
      and ok: "status r = 200"
  shows "fields_present b
       \<and> (\<exists>secret. RAZORPAY_KEY_SECRET e = Some secret
             \<and> isValidSignature
                 (hmac_sha256_hex e secret
                    (the (b_razorpay_order_id b) @ ''|'' @ the (b_razorpay_payment_id b)))
                 (the (b_razorpay_signature b)))
       \<and> (\<exists>ord. single (\<lambda>r. o_id r = the (b_order_id b)
                              \<and> razorpay_order_id r = Some (the (b_razorpay_order_id b)))
                   (orders d') = Some ord
                \<and> payment_verified ord)"
proof -
  let ?P = "\<lambda>r. o_id r = the (b_order_id b) \<and> razorpay_order_id r = Some (the (b_razorpay_order_id b))"
  obtain rl d1 where rl: "checkRateLimit now req ''payment_verify'' 10 60000 d = (rl, d1)"
    by (cases "checkRateLimit now req ''payment_verify'' 10 60000 d")
  have not_limited: "rl = None"
  proof (cases rl)
    case (Some x)
    with rl post res have "r = x" by (simp add: verify_limited)
    moreover have "status x = 429" using rl Some checkRateLimit_status by blast
    ultimately show ?thesis using ok by simp
  qed simp
  have fields: "fields_present b"
  proof (rule ccontr)
    assume "\<not> fields_present b"
    with verify_missing [of req now d d1 b e k m] post rl not_limited res ok
    show False by simp
  qed
  obtain secret where secret: "RAZORPAY_KEY_SECRET e = Some secret"
  proof (cases "RAZORPAY_KEY_SECRET e")
    case None
    with verify_no_secret [of req now d d1 b e k m] post rl not_limited fields res ok
    show ?thesis by (simp add: json_def)
  qed blast
  let ?valid = "isValidSignature
                 (hmac_sha256_hex e secret
                    (the (b_razorpay_order_id b) @ ''|'' @ the (b_razorpay_payment_id b)))
                 (the (b_razorpay_signature b))"
  have valid: ?valid
  proof (rule ccontr)
    assume "\<not> ?valid"
    with verify_bad_signature [of req now d d1 b e secret k m] post rl not_limited fields secret
      res ok
    show False by (simp add: json_def)
  qed
  obtain ord where ord: "single ?P (orders d1) = Some ord"
  proof (cases "single ?P (orders d1)")
    case None
    with verify_mismatch [of req now d d1 b e secret k m] post rl not_limited fields secret
      valid res ok
    show ?thesis by (simp add: json_def)
  qed blast
  have "\<exists>ord'. single ?P (orders d') = Some ord' \<and> payment_verified ord'"
  proof (cases "payment_verified ord")
    case True
    with verify_already [of req now d d1 b e secret ord k m] post rl not_limited fields secret
      valid ord res
    have "d' = d1" by simp
    with ord True show ?thesis by blast
  next
    case False
    with verify_success(2) [of req now d d1 b e secret ord k m] post rl not_limited fields secret
      valid ord res
    have "orders d' = update_where (\<lambda>r. o_id r = the (b_order_id b))
               (mark_paid_verify (the (b_razorpay_payment_id b)) (the (b_razorpay_signature b)) now)
               (orders d1)"
      by simp
    moreover have "single ?P (update_where (\<lambda>r. o_id r = the (b_order_id b))
               (mark_paid_verify (the (b_razorpay_payment_id b)) (the (b_razorpay_signature b)) now)
               (orders d1))
          = Some (mark_paid_verify (the (b_razorpay_payment_id b)) (the (b_razorpay_signature b)) now ord)"
      by (rule update_where_single_sub [OF ord]) (simp_all add: mark_paid_verify_def)
    ultimately show ?thesis by (simp add: mark_paid_verify_def)
  qed
  with fields secret valid show ?thesis by blast
qed

text \<open>
  Claim C4.  A verification \<open>POST\<close> with a valid payload for an order that is already
  verified is answered 200 with "Payment already verified", and the store it returns is the
  one the rate limiter left: in particular, when a first call was answered 200, a second
  call with the same payload that the rate limiter admits is answered 200 and changes no
  order, ticket, ticket message, audit log entry, user or refresh token (only the rate
  limiter's own counter advances), so the paid transition and the ticket creation run once.
\<close>

theorem verify_idempotent:
  "(req_method req = ''POST''
      \<and> fst (checkRateLimit t2 req ''payment_verify'' 10 60000 d1) = None
      \<and> fields_present b \<and> RAZORPAY_KEY_SECRET e = Some secret
      \<and> isValidSignature
           (hmac_sha256_hex e secret
              (the (b_razorpay_order_id b) @ ''|'' @ the (b_razorpay_payment_id b)))
           (the (b_razorpay_signature b))
      \<and> single (\<lambda>r. o_id r = the (b_order_id b)
                     \<and> razorpay_order_id r = Some (the (b_razorpay_order_id b)))
           (orders d1) = Some ord
      \<and> payment_verified ord
     \<longrightarrow> paymentVerify e t2 k2 m2 req b d1
           = (json 200 [(''success'', JBool True), (''message'', JStr ''Payment already verified''),
                        (''order_number'', JStr (order_number ord))],
              snd (checkRateLimit t2 req ''payment_verify'' 10 60000 d1)))
   \<and> (req_method req = ''POST''
      \<and> paymentVerify e t1 k1 m1 req b d = (r1, d1) \<and> status r1 = 200
      \<and> fst (checkRateLimit t2 req ''payment_verify'' 10 60000 d1) = None
     \<longrightarrow> status (fst (paymentVerify e t2 k2 m2 req b d1)) = 200
       \<and> (''message'', JStr ''Payment already verified'')
            \<in> set (body (fst (paymentVerify e t2 k2 m2 req b d1)))
       \<and> orders (snd (paymentVerify e t2 k2 m2 req b d1)) = orders d1
       \<and> tickets (snd (paymentVerify e t2 k2 m2 req b d1)) = tickets d1
       \<and> ticket_messages (snd (paymentVerify e t2 k2 m2 req b d1)) = ticket_messages d1
       \<and> activity_logs (snd (paymentVerify e t2 k2 m2 req b d1)) = activity_logs d1
       \<and> users (snd (paymentVerify e t2 k2 m2 req b d1)) = users d1
       \<and> refresh_tokens (snd (paymentVerify e t2 k2 m2 req b d1)) = refresh_tokens d1)"
proof (rule conjI; rule impI)
  let ?P = "\<lambda>r. o_id r = the (b_order_id b) \<and> razorpay_order_id r = Some (the (b_razorpay_order_id b))"
  obtain rl d2 where rl: "checkRateLimit t2 req ''payment_verify'' 10 60000 d1 = (rl, d2)"
    by (cases "checkRateLimit t2 req ''payment_verify'' 10 60000 d1")
  have frame: "orders d2 = orders d1" "tickets d2 = tickets d1"
      "ticket_messages d2 = ticket_messages d1" "activity_logs d2 = activity_logs d1"
      "users d2 = users d1" "refresh_tokens d2 = refresh_tokens d1"
    using checkRateLimit_frame [OF rl] by simp_all
  {
    assume a: "req_method req = ''POST''
      \<and> fst (checkRateLimit t2 req ''payment_verify'' 10 60000 d1) = None
      \<and> fields_present b \<and> RAZORPAY_KEY_SECRET e = Some secret
      \<and> isValidSignature
           (hmac_sha256_hex e secret
              (the (b_razorpay_order_id b) @ ''|'' @ the (b_razorpay_payment_id b)))
           (the (b_razorpay_signature b))
      \<and> single ?P (orders d1) = Some ord
      \<and> payment_verified ord"
    then have "rl = None" "single ?P (orders d2) = Some ord" using rl frame by simp_all
    with a rl verify_already [of req t2 d1 d2 b e secret ord k2 m2]
    show "paymentVerify e t2 k2 m2 req b d1
           = (json 200 [(''success'', JBool True), (''message'', JStr ''Payment already verified''),
                        (''order_number'', JStr (order_number ord))],
              snd (checkRateLimit t2 req ''payment_verify'' 10 60000 d1))"
      by simp
  }
  {
    assume a: "req_method req = ''POST''
      \<and> paymentVerify e t1 k1 m1 req b d = (r1, d1) \<and> status r1 = 200
      \<and> fst (checkRateLimit t2 req ''payment_verify'' 10 60000 d1) = None"
    then have none: "rl = None" using rl by simp
    from a verify_200_state [of req e t1 k1 m1 b d r1 d1]
    obtain secret' ord' where s:
      "fields_present b" "RAZORPAY_KEY_SECRET e = Some secret'"
      "isValidSignature
           (hmac_sha256_hex e secret'
              (the (b_razorpay_order_id b) @ ''|'' @ the (b_razorpay_payment_id b)))
           (the (b_razorpay_signature b))"
      "single ?P (orders d1) = Some ord'" "payment_verified ord'"
      by blast
    then have "single ?P (orders d2) = Some ord'" using frame by simp
    with a rl none s verify_already [of req t2 d1 d2 b e secret' ord' k2 m2]
    have "paymentVerify e t2 k2 m2 req b d1
           = (json 200 [(''success'', JBool True), (''message'', JStr ''Payment already verified''),
                        (''order_number'', JStr (order_number ord'))], d2)"
      by simp
    with frame
    show "status (fst (paymentVerify e t2 k2 m2 req b d1)) = 200
       \<and> (''message'', JStr ''Payment already verified'')
            \<in> set (body (fst (paymentVerify e t2 k2 m2 req b d1)))
       \<and> orders (snd (paymentVerify e t2 k2 m2 req b d1)) = orders d1
       \<and> tickets (snd (paymentVerify e t2 k2 m2 req b d1)) = tickets d1
       \<and> ticket_messages (snd (paymentVerify e t2 k2 m2 req b d1)) = ticket_messages d1
       \<and> activity_logs (snd (paymentVerify e t2 k2 m2 req b d1)) = activity_logs d1
       \<and> users (snd (paymentVerify e t2 k2 m2 req b d1)) = users d1
       \<and> refresh_tokens (snd (paymentVerify e t2 k2 m2 req b d1)) = refresh_tokens d1"
      by (simp add: json_def)
  }
qed

lemma verify_success_state:
  assumes "req_method req = ''POST''"
      and "checkRateLimit now req ''payment_verify'' 10 60000 d = (None, d1)"
      and "fields_present b" and "RAZORPAY_KEY_SECRET e = Some secret"
      and "isValidSignature
       (hmac_sha256_hex e secret (the (b_razorpay_order_id b) @ ''|'' @ the (b_razorpay_payment_id b)))
       (the (b_razorpay_signature b))"
      and "single (\<lambda>r. o_id r = the (b_order_id b) \<and> razorpay_order_id r = Some (the (b_razorpay_order_id b)))
     (orders d1) = Some ord"
      and "\<not> payment_verified ord"
      and "insert_ticket
             \<lparr>t_id = k, ticket_number = ''TKT'' @ base36 (nat now), t_order_id = Some (o_id ord),
              t_user_id = o_user_id ord,
              subject = ''Order '' @ order_number ord @ '' - '' @ o_service_name ord,
              category = ''order'', priority = ''normal'', t_status = ''open'',
              t_updated_at = now, resolved_at = None\<rparr>
             (d1\<lparr>orders := update_where (\<lambda>r. o_id r = the (b_order_id b))
                 (mark_paid_verify (the (b_razorpay_payment_id b)) (the (b_razorpay_signature b)) now)
                 (orders d1)\<rparr>) = (Some t, d3)"
  shows "snd (paymentVerify e now k m req b d) =
           logActivity (o_user_id ord) ''PAYMENT_VERIFIED'' ''order'' (Some (o_id ord))
                 [(''razorpay_order_id'', JStr (the (b_razorpay_order_id b))),
                  (''razorpay_payment_id'', JStr (the (b_razorpay_payment_id b))),
                  (''amount'', JNum (of_int (o_advance ord))),
                  (''ticket_number'', JStr (''TKT'' @ base36 (nat now)))] (Some req)
             (d3\<lparr>ticket_messages := ticket_messages d3 @
                       [\<lparr>m_id = m, m_ticket_id = t_id t, author_id = None,
                         author_name = ''System'', is_admin = False, is_system = True,
                         m_message = confirmation_message e ord, attachments = []\<rparr>]\<rparr>)"
  using assms
  by (simp add: paymentVerify_def handleCors_def fields_present_def Let_def)

lemma example_order1:
  "single (\<lambda>r. o_id r = ''o1'' \<and> razorpay_order_id r = Some ''order_A'') (orders example_db) = Some order1"
  by (simp add: single_def example_db_def order1_def order2_def order3_def)

lemma example_verify_facts:
  "req_method (request_from tok) = ''POST''"
  "fields_present (verify_body_A ''decade'' ''o1'')"
  "RAZORPAY_KEY_SECRET example_env = Some ''key-secret''"
  "isValidSignature
       (hmac_sha256_hex example_env ''key-secret''
          (the (b_razorpay_order_id (verify_body_A ''decade'' ''o1'')) @ ''|''
            @ the (b_razorpay_payment_id (verify_body_A ''decade'' ''o1''))))
       (the (b_razorpay_signature (verify_body_A ''decade'' ''o1'')))"
  "\<not> payment_verified order1"
  by (simp_all add: request_from_def fields_present_def verify_body_A_def truthy_def
        example_env_def isValidSignature_iff toy_hmac_def order1_def)

lemma base36_1000: "base36 1000 = ''RS''"
  by code_simp

lemma paid_db_eval:
  "paid_db = example_db
     \<lparr>orders := [mark_paid_verify ''pay_1'' ''decade'' 1000 order1, order2, order3],
      tickets := [ticket1, ticket2,
         \<lparr>t_id = ''t9'', ticket_number = ''TKTRS'', t_order_id = Some ''o1'',
           t_user_id = Some ''u1'', subject = ''Order ORD1 - Anime Art'',
           category = ''order'', priority = ''normal'', t_status = ''open'',
           t_updated_at = 1000, resolved_at = None\<rparr>],
      ticket_messages := [\<lparr>m_id = ''m9'', m_ticket_id = ''t9'', author_id = None,
           author_name = ''System'', is_admin = False, is_system = True,
           m_message = confirmation_message example_env order1, attachments = []\<rparr>],
      activity_logs := [\<lparr>l_user_id = Some ''u1'', l_action = ''PAYMENT_VERIFIED'',
           l_resource_type = ''order'', l_resource_id = Some ''o1'',
           l_details = [(''razorpay_order_id'', JStr ''order_A''),
                  (''razorpay_payment_id'', JStr ''pay_1''),
                  (''amount'', JNum 500),
                  (''ticket_number'', JStr ''TKTRS'')],
           l_ip_address = Some ''10.0.0.1'', l_user_agent = Some ''agent''\<rparr>],
      rate_limits := [(''10.0.0.1'', ''payment_verify'') \<mapsto>
               \<lparr>attempts = 1, window_start = 1000, blocked_until = None\<rparr>]\<rparr>"
proof -
  let ?d1 = "example_db\<lparr>rate_limits := [(''10.0.0.1'', ''payment_verify'') \<mapsto>
               \<lparr>attempts = 1, window_start = 1000, blocked_until = None\<rparr>]\<rparr>"
  let ?b = "verify_body_A ''decade'' ''o1''"
  let ?T = "\<lparr>t_id = ''t9'', ticket_number = ''TKT'' @ base36 (nat 1000), t_order_id = Some (o_id order1),
              t_user_id = o_user_id order1,
              subject = ''Order '' @ order_number order1 @ '' - '' @ o_service_name order1,
              category = ''order'', priority = ''normal'', t_status = ''open'',
              t_updated_at = 1000, resolved_at = None\<rparr>"
  let ?d2 = "?d1\<lparr>orders := update_where (\<lambda>r. o_id r = the (b_order_id ?b))
                 (mark_paid_verify (the (b_razorpay_payment_id ?b)) (the (b_razorpay_signature ?b)) 1000)
                 (orders ?d1)\<rparr>"
  have ua: "getUserAgent (request_from None) = ''agent''"
    by (simp add: getUserAgent_def request_from_def)
  have o1: "single (\<lambda>r. o_id r = the (b_order_id ?b)
                        \<and> razorpay_order_id r = Some (the (b_razorpay_order_id ?b)))
              (orders ?d1) = Some order1"
    using example_order1 by (simp add: verify_body_A_def)
  have ins: "insert_ticket ?T ?d2 = (Some ?T, ?d2\<lparr>tickets := tickets ?d2 @ [?T]\<rparr>)"
    by (simp add: insert_ticket_def example_db_def ticket1_def ticket2_def base36_1000)
  have upd: "orders ?d2 = [mark_paid_verify ''pay_1'' ''decade'' 1000 order1, order2, order3]"
    by (simp add: update_where_def verify_body_A_def example_db_def order1_def order2_def order3_def)
  have "paid_db = logActivity (o_user_id order1) ''PAYMENT_VERIFIED'' ''order'' (Some (o_id order1))
                 [(''razorpay_order_id'', JStr (the (b_razorpay_order_id ?b))),
                  (''razorpay_payment_id'', JStr (the (b_razorpay_payment_id ?b))),
                  (''amount'', JNum (of_int (o_advance order1))),
                  (''ticket_number'', JStr (''TKT'' @ base36 (nat 1000)))] (Some (request_from None))
             ((?d2\<lparr>tickets := tickets ?d2 @ [?T]\<rparr>)
                \<lparr>ticket_messages := ticket_messages (?d2\<lparr>tickets := tickets ?d2 @ [?T]\<rparr>) @
                       [\<lparr>m_id = ''m9'', m_ticket_id = t_id ?T, author_id = None,
                         author_name = ''System'', is_admin = False, is_system = True,
                         m_message = confirmation_message example_env order1, attachments = []\<rparr>]\<rparr>)"
    unfolding paid_db_def
    by (rule verify_success_state [OF example_verify_facts(1) example_admitted example_verify_facts(2,3,4)
          o1 example_verify_facts(5) ins])
  also have "\<dots> = example_db
     \<lparr>orders := [mark_paid_verify ''pay_1'' ''decade'' 1000 order1, order2, order3],
      tickets := [ticket1, ticket2,
         \<lparr>t_id = ''t9'', ticket_number = ''TKTRS'', t_order_id = Some ''o1'',
           t_user_id = Some ''u1'', subject = ''Order ORD1 - Anime Art'',
           category = ''order'', priority = ''normal'', t_status = ''open'',
           t_updated_at = 1000, resolved_at = None\<rparr>],
      ticket_messages := [\<lparr>m_id = ''m9'', m_ticket_id = ''t9'', author_id = None,
           author_name = ''System'', is_admin = False, is_system = True,
           m_message = confirmation_message example_env order1, attachments = []\<rparr>],
      activity_logs := [\<lparr>l_user_id = Some ''u1'', l_action = ''PAYMENT_VERIFIED'',
           l_resource_type = ''order'', l_resource_id = Some ''o1'',
           l_details = [(''razorpay_order_id'', JStr ''order_A''),
                  (''razorpay_payment_id'', JStr ''pay_1''),
                  (''amount'', JNum 500),
                  (''ticket_number'', JStr ''TKTRS'')],
           l_ip_address = Some ''10.0.0.1'', l_user_agent = Some ''agent''\<rparr>],
      rate_limits := [(''10.0.0.1'', ''payment_verify'') \<mapsto>
               \<lparr>attempts = 1, window_start = 1000, blocked_until = None\<rparr>]\<rparr>"
    by (simp add: logActivity_def example_ip ua base36_1000 verify_body_A_def update_where_def
          example_db_def order1_def order2_def order3_def)
  finally show ?thesis .
qed

theorem verify_idempotent_witness:
  "req_method (request_from None) = ''POST''
   \<and> status (fst (paymentVerify example_env 1000 ''t9'' ''m9'' (request_from None)
                    (verify_body_A ''decade'' ''o1'') example_db)) = 200
   \<and> fst (checkRateLimit 2000 (request_from None) ''payment_verify'' 10 60000 paid_db) = None
   \<and> status (fst (paymentVerify example_env 2000 ''t10'' ''m10'' (request_from None)
                    (verify_body_A ''decade'' ''o1'') paid_db)) = 200
   \<and> (''message'', JStr ''Payment already verified'')
        \<in> set (body (fst (paymentVerify example_env 2000 ''t10'' ''m10'' (request_from None)
                    (verify_body_A ''decade'' ''o1'') paid_db)))
   \<and> orders (snd (paymentVerify example_env 2000 ''t10'' ''m10'' (request_from None)
                    (verify_body_A ''decade'' ''o1'') paid_db)) = orders paid_db
   \<and> tickets (snd (paymentVerify example_env 2000 ''t10'' ''m10'' (request_from None)
                    (verify_body_A ''decade'' ''o1'') paid_db)) = tickets paid_db
   \<and> length (tickets paid_db) = 3
   \<and> ticket_messages (snd (paymentVerify example_env 2000 ''t10'' ''m10'' (request_from None)
                    (verify_body_A ''decade'' ''o1'') paid_db)) = ticket_messages paid_db
   \<and> activity_logs (snd (paymentVerify example_env 2000 ''t10'' ''m10'' (request_from None)
                    (verify_body_A ''decade'' ''o1'') paid_db)) = activity_logs paid_db"
proof -
  let ?b = "verify_body_A ''decade'' ''o1''"
  let ?req = "request_from None"
  have post: "req_method ?req = ''POST''" by (rule example_verify_facts(1))
  have o1: "single (\<lambda>r. o_id r = the (b_order_id ?b)
                        \<and> razorpay_order_id r = Some (the (b_razorpay_order_id ?b)))
              (orders (example_db\<lparr>rate_limits := [(''10.0.0.1'', ''payment_verify'') \<mapsto>
               \<lparr>attempts = 1, window_start = 1000, blocked_until = None\<rparr>]\<rparr>)) = Some order1"
    using example_order1 by (simp add: verify_body_A_def)
  have first: "status (fst (paymentVerify example_env 1000 ''t9'' ''m9'' ?req ?b example_db)) = 200"
    by (rule verify_success(1) [OF post example_admitted example_verify_facts(2,3,4) o1
          example_verify_facts(5)])
  have pair: "paymentVerify example_env 1000 ''t9'' ''m9'' ?req ?b example_db
                = (fst (paymentVerify example_env 1000 ''t9'' ''m9'' ?req ?b example_db), paid_db)"
    by (simp add: paid_db_def)
  have adm: "fst (checkRateLimit 2000 ?req ''payment_verify'' 10 60000 paid_db) = None"
    by (simp add: checkRateLimit_def Let_def example_ip paid_db_eval)
  have len: "length (tickets paid_db) = 3" by (simp add: paid_db_eval)
  from verify_idempotent [of ?req 2000 paid_db ?b example_env _ _ "''t10''" "''m10''"
      1000 "''t9''" "''m9''" example_db
      "fst (paymentVerify example_env 1000 ''t9'' ''m9'' ?req ?b example_db)"]
    post pair first adm
  have "status (fst (paymentVerify example_env 2000 ''t10'' ''m10'' ?req ?b paid_db)) = 200
       \<and> (''message'', JStr ''Payment already verified'')
            \<in> set (body (fst (paymentVerify example_env 2000 ''t10'' ''m10'' ?req ?b paid_db)))
       \<and> orders (snd (paymentVerify example_env 2000 ''t10'' ''m10'' ?req ?b paid_db)) = orders paid_db
       \<and> tickets (snd (paymentVerify example_env 2000 ''t10'' ''m10'' ?req ?b paid_db)) = tickets paid_db
       \<and> ticket_messages (snd (paymentVerify example_env 2000 ''t10'' ''m10'' ?req ?b paid_db)) = ticket_messages paid_db
       \<and> activity_logs (snd (paymentVerify example_env 2000 ''t10'' ''m10'' ?req ?b paid_db)) = activity_logs paid_db
       \<and> users (snd (paymentVerify example_env 2000 ''t10'' ''m10'' ?req ?b paid_db)) = users paid_db
       \<and> refresh_tokens (snd (paymentVerify example_env 2000 ''t10'' ''m10'' ?req ?b paid_db)) = refresh_tokens paid_db"
    by blast
  with post first adm len show ?thesis by blast
qed

text \<open>
  Decoding is not injective: characters with the same hexadecimal values, followed by
  anything that decodes to no byte, give the same buffer.
\<close>

lemma buffer_from_hex_same_digits:
  assumes "map hex_digit s = map hex_digit h"
      and "\<forall>x \<in> set h. hex_digit x \<noteq> None"
      and "even (length h)"
      and "buffer_from_hex junk = []"
  shows "buffer_from_hex (s @ junk) = buffer_from_hex h"
  using assms
proof (induction h arbitrary: s rule: buffer_from_hex.induct)
  case (1 a b rest)
  from "1.prems"(1) obtain a' b' s' where s: "s = a' # b' # s'"
    and d: "hex_digit a' = hex_digit a" "hex_digit b' = hex_digit b"
           "map hex_digit s' = map hex_digit rest"
    by (auto simp: map_eq_Cons_conv)
  from "1.prems"(2) obtain x y where xy: "hex_digit a = Some x" "hex_digit b = Some y"
    by auto
  have "buffer_from_hex (s' @ junk) = buffer_from_hex rest"
    using "1.IH" [OF xy d(3)] "1.prems" by simp
  then show ?case using s d xy by simp
qed simp_all

text \<open>
  Claim C1.  The claim is that a verification request whose signature is not equal to the
  HMAC-SHA256 of \<open>razorpay_order_id + '|' + razorpay_payment_id\<close> under the gateway secret is
  rejected with 400 and changes no order.  The handler compares the two only after decoding
  both with \<open>Buffer.from(_, 'hex')\<close>.  So, whenever the digest \<open>h\<close> consists of hexadecimal
  digits (as every hexadecimal SHA-256 digest does), a signature that differs from \<open>h\<close> but
  is made of characters with the same hexadecimal values as those of \<open>h\<close> (a letter in the
  other case), followed by anything that decodes to no byte (such as characters that are
  not hexadecimal), is accepted: a \<open>POST\<close> the rate limiter admits, naming a stored order
  that is not yet verified, is answered 200, and the order is stored as verified and
  \<open>advance_paid\<close>, with the altered signature.
\<close>

theorem verify_accepts_altered_signature:
  assumes post: "req_method req = ''POST''"
      and adm: "fst (checkRateLimit now req ''payment_verify'' 10 60000 d) = None"
      and secret: "RAZORPAY_KEY_SECRET e = Some secret"
      and rid: "b_razorpay_order_id b = Some rid" "rid \<noteq> []"
      and pid: "b_razorpay_payment_id b = Some pid" "pid \<noteq> []"
      and oid: "b_order_id b = Some oid" "oid \<noteq> []"
      and digest: "hmac_sha256_hex e secret (rid @ ''|'' @ pid) = h"
                  "\<forall>x \<in> set h. hex_digit x \<noteq> None" "even (length h)"
      and sg: "b_razorpay_signature b = Some (s @ junk)"
              "map hex_digit s = map hex_digit h" "buffer_from_hex junk = []"
      and differs: "s @ junk \<noteq> h"
      and ord: "single (\<lambda>r. o_id r = oid \<and> razorpay_order_id r = Some rid) (orders d) = Some ord"
               "\<not> payment_verified ord"
  shows "the (b_razorpay_signature b) \<noteq> hmac_sha256_hex e secret (rid @ ''|'' @ pid)
       \<and> status (fst (paymentVerify e now k m req b d)) = 200
       \<and> orders (snd (paymentVerify e now k m req b d))
           = update_where (\<lambda>r. o_id r = oid) (mark_paid_verify pid (s @ junk) now) (orders d)
       \<and> single (\<lambda>r. o_id r = oid \<and> razorpay_order_id r = Some rid)
            (orders (snd (paymentVerify e now k m req b d)))
           = Some (ord\<lparr>razorpay_payment_id := Some pid, razorpay_signature := Some (s @ junk),
                       payment_verified := True, o_status := ''advance_paid'',
                       paid_at := Some now, o_updated_at := now\<rparr>)"
proof -
  let ?P = "\<lambda>r. o_id r = oid \<and> razorpay_order_id r = Some rid"
  obtain rl d1 where rl: "checkRateLimit now req ''payment_verify'' 10 60000 d = (rl, d1)"
    by (cases "checkRateLimit now req ''payment_verify'' 10 60000 d")
  with adm have rl': "checkRateLimit now req ''payment_verify'' 10 60000 d = (None, d1)"
    by simp
  have frame: "orders d1 = orders d"
    using checkRateLimit_frame [OF rl] by simp
  have "s @ junk \<noteq> []"
    using sg(2) differs by auto
  then have fields: "fields_present b"
    using rid pid oid sg(1) by (simp add: fields_present_def truthy_def)
  have the_fields: "the (b_razorpay_order_id b) = rid" "the (b_razorpay_payment_id b) = pid"
                   "the (b_razorpay_signature b) = s @ junk" "the (b_order_id b) = oid"
    using rid pid sg oid by simp_all
  have "buffer_from_hex (s @ junk) = buffer_from_hex h"
    using sg(2) digest(2,3) sg(3) by (rule buffer_from_hex_same_digits)
  then have valid: "isValidSignature
       (hmac_sha256_hex e secret (the (b_razorpay_order_id b) @ ''|'' @ the (b_razorpay_payment_id b)))
       (the (b_razorpay_signature b))"
    using digest(1) the_fields by (simp add: isValidSignature_iff)
  have ord1: "single (\<lambda>r. o_id r = the (b_order_id b)
                          \<and> razorpay_order_id r = Some (the (b_razorpay_order_id b)))
                (orders d1) = Some ord"
    using ord(1) frame the_fields by simp
  note ok = verify_success [OF post rl' fields secret valid ord1 ord(2), of k m]
  have st: "status (fst (paymentVerify e now k m req b d)) = 200" by (rule ok(1))
  have os: "orders (snd (paymentVerify e now k m req b d))
           = update_where (\<lambda>r. o_id r = oid) (mark_paid_verify pid (s @ junk) now) (orders d)"
    using ok(2) the_fields frame by simp
  have "single ?P (update_where (\<lambda>r. o_id r = oid) (mark_paid_verify pid (s @ junk) now) (orders d))
          = Some (mark_paid_verify pid (s @ junk) now ord)"
    by (rule update_where_single_sub [OF ord(1)]) (simp_all add: mark_paid_verify_def)
  with os have sn: "single ?P (orders (snd (paymentVerify e now k m req b d)))
           = Some (ord\<lparr>razorpay_payment_id := Some pid, razorpay_signature := Some (s @ junk),
                       payment_verified := True, o_status := ''advance_paid'',
                       paid_at := Some now, o_updated_at := now\<rparr>)"
    by (simp add: mark_paid_verify_def)
  have "the (b_razorpay_signature b) \<noteq> hmac_sha256_hex e secret (rid @ ''|'' @ pid)"
    using differs digest(1) the_fields by simp
  with st os sn show ?thesis by blast
qed


text \<open>
  On the example store the digest is \<open>decade\<close>: the signatures \<open>decadezz\<close> and \<open>Decade\<close>
  are both accepted and \<open>order1\<close> is stored as paid.
\<close>

lemma example_digits:
  "\<forall>x \<in> set ''decade''. hex_digit x \<noteq> None"
  "map hex_digit ''Decade'' = map hex_digit ''decade''"
  "buffer_from_hex ''zz'' = []"
  by (simp_all add: hex_digit_def)

theorem verify_accepts_altered_signature_witness:
  "hmac_sha256_hex example_env ''key-secret'' (''order_A'' @ ''|'' @ ''pay_1'') = ''decade''
   \<and> status (fst (paymentVerify example_env 1000 ''t9'' ''m9'' (request_from None)
                    (verify_body_A ''decadezz'' ''o1'') example_db)) = 200
   \<and> orders (snd (paymentVerify example_env 1000 ''t9'' ''m9'' (request_from None)
                    (verify_body_A ''decadezz'' ''o1'') example_db))
       = [order1\<lparr>razorpay_payment_id := Some ''pay_1'', razorpay_signature := Some ''decadezz'',
                 payment_verified := True, o_status := ''advance_paid'',
                 paid_at := Some 1000, o_updated_at := 1000\<rparr>, order2, order3]
   \<and> status (fst (paymentVerify example_env 1000 ''t9'' ''m9'' (request_from None)
                    (verify_body_A ''Decade'' ''o1'') example_db)) = 200
   \<and> orders (snd (paymentVerify example_env 1000 ''t9'' ''m9'' (request_from None)
                    (verify_body_A ''Decade'' ''o1'') example_db))
       = [order1\<lparr>razorpay_payment_id := Some ''pay_1'', razorpay_signature := Some ''Decade'',
                 payment_verified := True, o_status := ''advance_paid'',
                 paid_at := Some 1000, o_updated_at := 1000\<rparr>, order2, order3]"
proof -
  let ?req = "request_from None"
  have post: "req_method ?req = ''POST''" by (simp add: request_from_def)
  have adm: "fst (checkRateLimit 1000 ?req ''payment_verify'' 10 60000 example_db) = None"
    by (simp add: example_admitted)
  have secret: "RAZORPAY_KEY_SECRET example_env = Some ''key-secret''"
    by (simp add: example_env_def)
  have unpaid: "\<not> payment_verified order1" by (simp add: order1_def)
  have upd: "update_where (\<lambda>r. o_id r = ''o1'') f (orders example_db) = [f order1, order2, order3]"
    for f
    by (simp add: update_where_def example_db_def order1_def order2_def order3_def)
  have one: "status (fst (paymentVerify example_env 1000 ''t9'' ''m9'' ?req
                    (verify_body_A ''decadezz'' ''o1'') example_db)) = 200
   \<and> orders (snd (paymentVerify example_env 1000 ''t9'' ''m9'' ?req
                    (verify_body_A ''decadezz'' ''o1'') example_db))
       = [mark_paid_verify ''pay_1'' ''decadezz'' 1000 order1, order2, order3]"
    using verify_accepts_altered_signature [where req = ?req and now = 1000 and d = example_db
        and e = example_env and secret = "''key-secret''"
        and b = "verify_body_A ''decadezz'' ''o1''" and rid = "''order_A''" and pid = "''pay_1''"
        and oid = "''o1''" and h = "''decade''" and s = "''decade''" and junk = "''zz''"
        and ord = order1 and k = "''t9''" and m = "''m9''"]
      post adm secret example_hmac example_digits example_order1 unpaid
    by (simp add: verify_body_A_def upd)
  have two: "status (fst (paymentVerify example_env 1000 ''t9'' ''m9'' ?req
                    (verify_body_A ''Decade'' ''o1'') example_db)) = 200
   \<and> orders (snd (paymentVerify example_env 1000 ''t9'' ''m9'' ?req
                    (verify_body_A ''Decade'' ''o1'') example_db))
       = [mark_paid_verify ''pay_1'' ''Decade'' 1000 order1, order2, order3]"
    using verify_accepts_altered_signature [where req = ?req and now = 1000 and d = example_db
        and e = example_env and secret = "''key-secret''"
        and b = "verify_body_A ''Decade'' ''o1''" and rid = "''order_A''" and pid = "''pay_1''"
        and oid = "''o1''" and h = "''decade''" and s = "''Decade''" and junk = "[]"
        and ord = order1 and k = "''t9''" and m = "''m9''"]
      post adm secret example_hmac example_digits example_order1 unpaid
    by (simp add: verify_body_A_def upd)
  from one two example_hmac show ?thesis
    by (simp add: mark_paid_verify_def)
qed

section \<open>Properties of the gateway webhook\<close>

lemma acknowledge_status: "status (fst (acknowledge now b d)) = 200"
  by (simp add: acknowledge_def json_def split: sum.splits)

lemma webhook_status:
  "status (fst (paymentWebhook e now req b d)) =
     (if req_method req \<noteq> ''POST'' then 405
      else if truthy (RAZORPAY_WEBHOOK_SECRET e)
              \<and> (\<not> truthy (x_razorpay_signature req)
                   \<or> (\<exists>wb. b = Some wb
                          \<and> the (x_razorpay_signature req)
                            \<noteq> hmac_sha256_hex e (the (RAZORPAY_WEBHOOK_SECRET e)) (stringify wb)))
      then 400 else 200)"
  by (cases b) (simp_all add: paymentWebhook_def json_def acknowledge_status)





lemma handler_tickets:
  "handlePaymentCaptured now pl d = Inr d' \<Longrightarrow>
     tickets d' = tickets d \<and> ticket_messages d' = ticket_messages d"
  "handlePaymentFailed pl d = Inr d' \<Longrightarrow>
     tickets d' = tickets d \<and> ticket_messages d' = ticket_messages d"
  "handleOrderPaid now pl d = Inr d' \<Longrightarrow>
     tickets d' = tickets d \<and> ticket_messages d' = ticket_messages d"
  by (auto simp: handlePaymentCaptured_def handlePaymentFailed_def handleOrderPaid_def
        logActivity_def split: option.splits if_splits)

lemma dispatch_tickets:
  "dispatch_event now b d = Inr d' \<Longrightarrow>
     tickets d' = tickets d \<and> ticket_messages d' = ticket_messages d"
  by (cases b) (auto simp: dispatch_event_def dest: handler_tickets split: if_splits)

lemma acknowledge_tickets:
  "tickets (snd (acknowledge now b d)) = tickets d
   \<and> ticket_messages (snd (acknowledge now b d)) = ticket_messages d"
  by (cases "dispatch_event now b d") (auto simp: acknowledge_def dest: dispatch_tickets)

text \<open>No webhook request ever creates a ticket or a ticket message.\<close>

lemma webhook_creates_no_ticket:
  "tickets (snd (paymentWebhook e now req b d)) = tickets d
   \<and> ticket_messages (snd (paymentWebhook e now req b d)) = ticket_messages d"
  by (cases b) (simp_all add: paymentWebhook_def acknowledge_tickets logActivity_def)


lemma example_hook:
  "req_method (webhook_request sg) = ''POST''"
  "x_razorpay_signature (webhook_request sg) = sg"
  "RAZORPAY_WEBHOOK_SECRET example_env = Some ''hook-secret''"
  "hmac_sha256_hex example_env ''hook-secret'' (stringify captured_body) = ''decade''"
  "getClientIP (webhook_request sg) = ''52.66.0.1''"
  "getUserAgent (webhook_request sg) = ''Razorpay-Webhook''"
  by (simp_all add: webhook_request_def example_env_def toy_hmac_def captured_body_def
        getClientIP_def getUserAgent_def js_or_def truthy_def)


lemma captured_db_eval:
  "captured_db = example_db
     \<lparr>orders := [mark_paid_webhook ''pay_1'' 900 order1, order2, order3],
      activity_logs := [\<lparr>l_user_id = Some ''u1'', l_action = ''PAYMENT_CAPTURED_WEBHOOK'',
           l_resource_type = ''order'', l_resource_id = Some ''o1'',
           l_details = [(''razorpay_payment_id'', JStr ''pay_1''), (''amount'', JNum 500)],
           l_ip_address = None, l_user_agent = None\<rparr>]\<rparr>"
proof -
  have o1: "single (\<lambda>r. razorpay_order_id r = Some ''order_A'') (orders example_db) = Some order1"
    by (simp add: single_def example_db_def order1_def order2_def order3_def)
  have nv: "\<not> payment_verified order1" "o_user_id order1 = Some ''u1''" "o_id order1 = ''o1''"
    by (simp_all add: order1_def)
  have cap: "handlePaymentCaptured 900 (payload captured_body) example_db
      = Inr (logActivity (Some ''u1'') ''PAYMENT_CAPTURED_WEBHOOK'' ''order'' (Some ''o1'')
               [(''razorpay_payment_id'', JStr ''pay_1''), (''amount'', JNum (of_int 50000 / 100))] None
               (example_db\<lparr>orders := update_where (\<lambda>r. o_id r = ''o1'')
                                   (mark_paid_webhook ''pay_1'' 900) (orders example_db)\<rparr>))"
    by (simp add: handlePaymentCaptured_def captured_body_def o1 nv)
  have ack: "acknowledge 900 (Some captured_body) example_db
      = (json 200 [(''received'', JBool True)],
         logActivity (Some ''u1'') ''PAYMENT_CAPTURED_WEBHOOK'' ''order'' (Some ''o1'')
               [(''razorpay_payment_id'', JStr ''pay_1''), (''amount'', JNum (of_int 50000 / 100))] None
               (example_db\<lparr>orders := update_where (\<lambda>r. o_id r = ''o1'')
                                   (mark_paid_webhook ''pay_1'' 900) (orders example_db)\<rparr>))"
    using cap by (simp add: acknowledge_def dispatch_event_def captured_body_def)
  have "captured_db = snd (acknowledge 900 (Some captured_body) example_db)"
    by (simp add: captured_db_def paymentWebhook_def example_hook truthy_def)
  also have "\<dots> = example_db
     \<lparr>orders := [mark_paid_webhook ''pay_1'' 900 order1, order2, order3],
      activity_logs := [\<lparr>l_user_id = Some ''u1'', l_action = ''PAYMENT_CAPTURED_WEBHOOK'',
           l_resource_type = ''order'', l_resource_id = Some ''o1'',
           l_details = [(''razorpay_payment_id'', JStr ''pay_1''), (''amount'', JNum 500)],
           l_ip_address = None, l_user_agent = None\<rparr>]\<rparr>"
    unfolding ack snd_conv
    by (simp add: logActivity_def update_where_def example_db_def order1_def order2_def
          order3_def)
  finally show ?thesis .
qed

text \<open>
  Claim C2.  The claim is that whichever confirmation path sees the payment first marks the
  order paid and creates its support ticket, so that every paid order has exactly one
  auto-ticket.  What the code does when the webhook comes first: a valid verification
  \<open>POST\<close> that follows a webhook request and finds its order verified is answered "Payment
  already verified", and the tickets and ticket messages are still those from before the
  webhook request; neither path has created the ticket.
\<close>

theorem webhook_first_leaves_no_ticket:
  assumes post: "req_method req = ''POST''"
      and adm: "fst (checkRateLimit t2 req ''payment_verify'' 10 60000
                       (snd (paymentWebhook e t1 wreq wb d))) = None"
      and fields: "fields_present b"
      and secret: "RAZORPAY_KEY_SECRET e = Some secret"
      and valid: "isValidSignature
           (hmac_sha256_hex e secret
              (the (b_razorpay_order_id b) @ ''|'' @ the (b_razorpay_payment_id b)))
           (the (b_razorpay_signature b))"
      and paid: "single (\<lambda>r. o_id r = the (b_order_id b)
                            \<and> razorpay_order_id r = Some (the (b_razorpay_order_id b)))
                   (orders (snd (paymentWebhook e t1 wreq wb d))) = Some ord"
                "payment_verified ord"
  shows "status (fst (paymentVerify e t2 k m req b (snd (paymentWebhook e t1 wreq wb d)))) = 200
       \<and> (''message'', JStr ''Payment already verified'')
            \<in> set (body (fst (paymentVerify e t2 k m req b (snd (paymentWebhook e t1 wreq wb d)))))
       \<and> tickets (snd (paymentVerify e t2 k m req b (snd (paymentWebhook e t1 wreq wb d))))
           = tickets d
       \<and> ticket_messages (snd (paymentVerify e t2 k m req b (snd (paymentWebhook e t1 wreq wb d))))
           = ticket_messages d"
proof -
  let ?d1 = "snd (paymentWebhook e t1 wreq wb d)"
  obtain rl d2 where rl: "checkRateLimit t2 req ''payment_verify'' 10 60000 ?d1 = (rl, d2)"
    by (cases "checkRateLimit t2 req ''payment_verify'' 10 60000 ?d1")
  with adm have none: "rl = None" by simp
  have frame: "orders d2 = orders ?d1" "tickets d2 = tickets ?d1"
              "ticket_messages d2 = ticket_messages ?d1"
    using checkRateLimit_frame [OF rl] by simp_all
  have "paymentVerify e t2 k m req b ?d1
          = (json 200 [(''success'', JBool True), (''message'', JStr ''Payment already verified''),
                       (''order_number'', JStr (order_number ord))], d2)"
    using verify_already [of req t2 ?d1 d2 b e secret ord k m] post rl none fields secret valid
      paid frame
    by simp
  then show ?thesis
    using frame webhook_creates_no_ticket [of e t1 wreq wb d] by (simp add: json_def)
qed

text \<open>
  The run on the example store: the gateway's \<open>payment.captured\<close> event for \<open>order1\<close>
  arrives first and marks it verified and \<open>advance_paid\<close>; the client's verification that
  follows is the no-op; the paid order is left without any ticket.
\<close>

theorem webhook_first_leaves_no_ticket_witness:
  "status (fst (paymentWebhook example_env 900 (webhook_request (Some ''decade''))
                  (Some captured_body) example_db)) = 200
   \<and> map payment_verified (orders captured_db) = [True, False, False]
   \<and> map o_status (orders captured_db) = [''advance_paid'', ''pending'', ''pending'']
   \<and> paymentVerify example_env 1000 ''t9'' ''m9'' (request_from None)
        (verify_body_A ''decade'' ''o1'') captured_db
      = (json 200 [(''success'', JBool True), (''message'', JStr ''Payment already verified''),
                   (''order_number'', JStr ''ORD1'')],
         captured_db\<lparr>rate_limits := [(''10.0.0.1'', ''payment_verify'') \<mapsto>
               \<lparr>attempts = 1, window_start = 1000, blocked_until = None\<rparr>]\<rparr>)
   \<and> tickets captured_db = [ticket1, ticket2]
   \<and> filter (\<lambda>t. t_order_id t = Some ''o1'')
        (tickets (snd (paymentVerify example_env 1000 ''t9'' ''m9'' (request_from None)
                         (verify_body_A ''decade'' ''o1'') captured_db))) = []"
proof -
  let ?d1 = "captured_db\<lparr>rate_limits := [(''10.0.0.1'', ''payment_verify'') \<mapsto>
               \<lparr>attempts = 1, window_start = 1000, blocked_until = None\<rparr>]\<rparr>"
  have st: "status (fst (paymentWebhook example_env 900 (webhook_request (Some ''decade''))
                  (Some captured_body) example_db)) = 200"
    by (simp add: webhook_status example_hook truthy_def)
  have os: "map payment_verified (orders captured_db) = [True, False, False]"
           "map o_status (orders captured_db) = [''advance_paid'', ''pending'', ''pending'']"
    by (simp_all add: captured_db_eval mark_paid_webhook_def order1_def order2_def order3_def)
  have tk: "tickets captured_db = [ticket1, ticket2]"
    by (simp add: captured_db_eval example_db_def)
  have adm: "checkRateLimit 1000 (request_from None) ''payment_verify'' 10 60000 captured_db
               = (None, ?d1)"
    by (simp add: checkRateLimit_def example_ip captured_db_eval example_db_def)
  have o1: "single (\<lambda>r. o_id r = the (b_order_id (verify_body_A ''decade'' ''o1''))
                        \<and> razorpay_order_id r
                            = Some (the (b_razorpay_order_id (verify_body_A ''decade'' ''o1''))))
              (orders ?d1) = Some (mark_paid_webhook ''pay_1'' 900 order1)"
    by (simp add: single_def captured_db_eval verify_body_A_def mark_paid_webhook_def
          order1_def order2_def order3_def)
  have v: "payment_verified (mark_paid_webhook ''pay_1'' 900 order1)"
          "order_number (mark_paid_webhook ''pay_1'' 900 order1) = ''ORD1''"
    by (simp_all add: mark_paid_webhook_def order1_def)
  have res: "paymentVerify example_env 1000 ''t9'' ''m9'' (request_from None)
        (verify_body_A ''decade'' ''o1'') captured_db
      = (json 200 [(''success'', JBool True), (''message'', JStr ''Payment already verified''),
                   (''order_number'', JStr ''ORD1'')], ?d1)"
    using verify_already [OF example_verify_facts(1) adm example_verify_facts(2,3,4) o1 v(1),
        of "''t9''" "''m9''"] v(2)
    by simp
  have adm': "fst (checkRateLimit 1000 (request_from None) ''payment_verify'' 10 60000
                     (snd (paymentWebhook example_env 900 (webhook_request (Some ''decade''))
                            (Some captured_body) example_db))) = None"
    using adm by (simp add: captured_db_def)
  have o1': "single (\<lambda>r. o_id r = the (b_order_id (verify_body_A ''decade'' ''o1''))
                        \<and> razorpay_order_id r
                            = Some (the (b_razorpay_order_id (verify_body_A ''decade'' ''o1''))))
              (orders (snd (paymentWebhook example_env 900 (webhook_request (Some ''decade''))
                            (Some captured_body) example_db)))
               = Some (mark_paid_webhook ''pay_1'' 900 order1)"
    using o1 by (simp add: captured_db_def)
  from webhook_first_leaves_no_ticket [OF example_verify_facts(1) adm' example_verify_facts(2,3,4)
      o1' v(1), of "''t9''" "''m9''"]
  have "tickets (snd (paymentVerify example_env 1000 ''t9'' ''m9'' (request_from None)
                         (verify_body_A ''decade'' ''o1'') captured_db)) = tickets example_db"
    by (simp add: captured_db_def)
  then have "filter (\<lambda>t. t_order_id t = Some ''o1'')
        (tickets (snd (paymentVerify example_env 1000 ''t9'' ''m9'' (request_from None)
                         (verify_body_A ''decade'' ''o1'') captured_db))) = []"
    by (simp add: example_db_def ticket1_def ticket2_def)
  with st os tk res show ?thesis by blast
qed

end
